theory Spec2Isabelle
  imports Main "HOL-Library.Sublist"
begin

text \<open>
  A model of \<^verbatim>\<open>functions/index.js\<close>, the four HTTP Cloud Functions that send mail through
  SendGrid: \<^verbatim>\<open>sendNewProviderEmail\<close>, \<^verbatim>\<open>sendAccessCredentials\<close>,
  \<^verbatim>\<open>sendAppointmentNotification\<close> and \<^verbatim>\<open>sendCitaConfirmacion\<close>. A handler is a function
  of its environment (the SendGrid key, Firestore, the file system, SendGrid) and of the
  request; it returns the trace of what it did to the outside and the response it sent.
  Every \<^verbatim>\<open>return\<close>, every exception the language or a collaborator can raise and every
  \<^verbatim>\<open>catch\<close> of the source is a branch of the model. The call \<^verbatim>\<open>sgMail.setApiKey\<close> is
  left out: it configures the client and nothing reads it back.
\<close>

section \<open>JavaScript strings\<close>

text \<open>
  A JavaScript string is a sequence of UTF-16 code units. The model keeps the code units
  \<open>U+0000 .. U+00FF\<close> (ISO-8859-1), one \<^typ>\<open>char\<close> each: every literal of
  \<^verbatim>\<open>functions/index.js\<close> outside its comments lies in that range, and
  \<^verbatim>\<open>trim\<close> and \<^verbatim>\<open>toLowerCase\<close> are closed on it.

  \<^verbatim>\<open>String.prototype.trim\<close> strips WhiteSpace and LineTerminator code points from both
  ends. Below \<open>U+0100\<close> these are TAB, LF, VT, FF, CR, SPACE and NO-BREAK SPACE.
\<close>

definition isWhiteSpace :: "char \<Rightarrow> bool" where
  "isWhiteSpace c =
     (let n = (of_char c :: nat)
      in n = 9 \<or> n = 10 \<or> n = 11 \<or> n = 12 \<or> n = 13 \<or> n = 32 \<or> n = 160)"

definition trim :: "string \<Rightarrow> string" where
  "trim s = rev (dropWhile isWhiteSpace (rev (dropWhile isWhiteSpace s)))"

text \<open>
  \<^verbatim>\<open>String.prototype.toLowerCase\<close> below \<open>U+0100\<close>: the letters \<open>A .. Z\<close> and
  \<open>U+00C0 .. U+00DE\<close> (but not the multiplication sign \<open>U+00D7\<close>) move up by 32; every
  other code unit is kept.
\<close>

definition lowerChar :: "char \<Rightarrow> char" where
  "lowerChar c =
     (let n = (of_char c :: nat)
      in if (65 \<le> n \<and> n \<le> 90) \<or> (192 \<le> n \<and> n \<le> 222 \<and> n \<noteq> 215)
         then char_of (n + 32) else c)"

definition toLowerCase :: "string \<Rightarrow> string" where
  "toLowerCase s = map lowerChar s"

text \<open>\<^verbatim>\<open>s.replace(/</g, "&lt;")\<close> and \<^verbatim>\<open>s.replace(/\n/g, "<br>")\<close>.\<close>

definition replace_lt :: "string \<Rightarrow> string" where
  "replace_lt s = concat (map (\<lambda>c. if c = CHR ''<'' then ''&lt;'' else [c]) s)"

definition replace_newline :: "string \<Rightarrow> string" where
  "replace_newline s = concat (map (\<lambda>c. if c = CHR 0x0A then ''<br>'' else [c]) s)"

section \<open>JavaScript values of a request body\<close>

text \<open>
  \<^verbatim>\<open>req.body\<close> is a parsed JSON document, and the handlers read it without any schema.
  A number is given by its rendering under \<^verbatim>\<open>Number::toString\<close>: the handlers observe a
  number only through its truthiness and through string conversion, and the falsy
  numbers render as \<open>0\<close> (both zeros) and \<open>NaN\<close>. An object is the list of its own
  properties; a lookup takes the first binding of a key.
\<close>

datatype jsval =
    JUndefined
  | JNull
  | JBool bool
  | JNum string
  | JStr string
  | JArr "jsval list"
  | JObj "(string \<times> jsval) list"

datatype js_error =
    TypeError
  | Failure string "string option"

text \<open>
  \<^const>\<open>TypeError\<close> is raised by the language itself. \<^const>\<open>Failure\<close> is what a collaborator
  (Firestore, the file system, SendGrid) throws: its \<^verbatim>\<open>message\<close>, and the serialised
  \<^verbatim>\<open>response.body\<close> when the error carries one.
\<close>

fun truthy :: "jsval \<Rightarrow> bool" where
  "truthy JUndefined = False"
| "truthy JNull = False"
| "truthy (JBool b) = b"
| "truthy (JNum r) = (r \<noteq> ''0'' \<and> r \<noteq> ''NaN'')"
| "truthy (JStr s) = (s \<noteq> [])"
| "truthy (JArr vs) = True"
| "truthy (JObj kvs) = True"

text \<open>
  Property access \<^verbatim>\<open>v.k\<close> and destructuring \<^verbatim>\<open>const { k } = v\<close>, for the property
  names the handlers use (none of them is inherited from a prototype): the own property
  of an object, \<^verbatim>\<open>undefined\<close> on anything else.
\<close>

fun getProp :: "jsval \<Rightarrow> string \<Rightarrow> jsval" where
  "getProp (JObj kvs) k = (case map_of kvs k of Some v \<Rightarrow> v | None \<Rightarrow> JUndefined)"
| "getProp v k = JUndefined"

text \<open>
  \<^verbatim>\<open>ToString\<close>, as used by \<^verbatim>\<open>String(v)\<close>, by \<^verbatim>\<open>v.toString()\<close> and by the
  interpolation \<^verbatim>\<open>${v}\<close> of a template literal. An array joins its elements with
  commas, \<^verbatim>\<open>null\<close> and \<^verbatim>\<open>undefined\<close> elements rendering as the empty string. A plain
  object renders as \<^verbatim>\<open>[object Object]\<close> through \<^verbatim>\<open>Object.prototype.toString\<close>, unless
  it has an own property \<^verbatim>\<open>toString\<close>, which in parsed JSON is never callable: then the
  conversion throws a TypeError.
\<close>

fun joinWith :: "string \<Rightarrow> string list \<Rightarrow> string" where
  "joinWith sep [] = []"
| "joinWith sep [s] = s"
| "joinWith sep (s # t # ss) = s @ sep @ joinWith sep (t # ss)"

fun ToString :: "jsval \<Rightarrow> js_error + string"
  and ToStrings :: "jsval list \<Rightarrow> js_error + string list" where
  "ToString JUndefined = Inr ''undefined''"
| "ToString JNull = Inr ''null''"
| "ToString (JBool b) = Inr (if b then ''true'' else ''false'')"
| "ToString (JNum r) = Inr r"
| "ToString (JStr s) = Inr s"
| "ToString (JArr vs) =
     (case ToStrings vs of Inl e \<Rightarrow> Inl e | Inr ss \<Rightarrow> Inr (joinWith '','' ss))"
| "ToString (JObj kvs) =
     (if map_of kvs ''toString'' = None then Inr ''[object Object]'' else Inl TypeError)"
| "ToStrings [] = Inr []"
| "ToStrings (v # vs) =
     (case (if v = JUndefined \<or> v = JNull then Inr [] else ToString v) of
        Inl e \<Rightarrow> Inl e
      | Inr s \<Rightarrow> (case ToStrings vs of Inl e \<Rightarrow> Inl e | Inr ss \<Rightarrow> Inr (s # ss)))"

section \<open>Helper: normalizeEmail\<close>

text \<open>
  \<^verbatim>\<open>
  function normalizeEmail(email) {
    if (!email) return "";
    return String(email).trim().toLowerCase();
  }
  \<close>
\<close>

definition normalizeEmail :: "jsval \<Rightarrow> js_error + string" where
  "normalizeEmail email =
     (if \<not> truthy email then Inr []
      else case ToString email of
             Inl e \<Rightarrow> Inl e
           | Inr s \<Rightarrow> Inr (toLowerCase (trim s)))"

text \<open>
  \<^verbatim>\<open>xs.map(f)\<close> with a callback that may throw: the elements are visited in order and
  the first exception ends the loop.
\<close>

fun mapE :: "('a \<Rightarrow> js_error + 'b) \<Rightarrow> 'a list \<Rightarrow> js_error + 'b list" where
  "mapE f [] = Inr []"
| "mapE f (x # xs) =
     (case f x of
        Inl e \<Rightarrow> Inl e
      | Inr y \<Rightarrow> (case mapE f xs of Inl e \<Rightarrow> Inl e | Inr ys \<Rightarrow> Inr (y # ys)))"

text \<open>\<^verbatim>\<open>xs.filter(Boolean)\<close> on a list of strings drops the empty ones.\<close>

definition filterBoolean :: "string list \<Rightarrow> string list" where
  "filterBoolean xs = filter (\<lambda>s. s \<noteq> []) xs"

text \<open>
  \<^verbatim>\<open>[...new Set(xs)]\<close>: a Set keeps each value once, in the order of first insertion.
\<close>

definition setAdd :: "string list \<Rightarrow> string \<Rightarrow> string list" where
  "setAdd acc x = (if x \<in> set acc then acc else acc @ [x])"

definition newSet :: "string list \<Rightarrow> string list" where
  "newSet xs = foldl setAdd [] xs"

section \<open>Collaborators, effects and responses\<close>

text \<open>
  The message handed to \<^verbatim>\<open>mailClient.send\<close>. \<^verbatim>\<open>to\<close> is one address (credentials,
  confirmation) or an array of addresses (new provider, pre-registration); \<^verbatim>\<open>text\<close> and
  \<^verbatim>\<open>attachments\<close> are \<^const>\<open>None\<close> when the message object has no such key. The field
  \<open>mimeType\<close> of an attachment is its \<^verbatim>\<open>type\<close>.
\<close>

record attachment =
  content :: jsval
  filename :: jsval
  mimeType :: string
  disposition :: string

datatype recipients = Single string | Multiple "string list"

record message =
  msg_to :: recipients
  msg_from_email :: string
  msg_from_name :: string
  msg_subject :: string
  msg_text :: "string option"
  msg_html :: string
  msg_attachments :: "attachment list option"

text \<open>\<^verbatim>\<open>collection(c).where(f, "in", ids).get()\<close> on Firestore.\<close>

datatype query = WhereIn string string "nat list"

text \<open>
  What a handler does to the outside, in order: console output (the label it prints; the
  values printed after the label are left out), the directory query, the read of the PDF
  and the delivery call.
\<close>

datatype effect =
    ConsoleError string
  | ConsoleLog string
  | FirestoreGet query
  | ReadFileSync string
  | Send message

text \<open>
  The outside a handler runs against: the environment variable, what Firestore answers
  to a query (the \<^verbatim>\<open>data()\<close> of each document found, or the error it throws), what the
  file system answers to a read (the content, in base64, or the error), and what SendGrid
  answers to a message (the status code of its response, or the error).
\<close>

record env =
  SENDGRID_API_KEY :: "string option"
  firestoreGet :: "query \<Rightarrow> js_error + jsval list"
  readFileSync :: "string \<Rightarrow> js_error + string"
  sgSend :: "message \<Rightarrow> js_error + nat"

record request =
  httpMethod :: string
  body :: jsval

text \<open>
  A response: the headers set, the status code, and either a JSON body
  \<^verbatim>\<open>{success, message, error?}\<close> or the text given to \<^verbatim>\<open>res.send\<close>. The field
  \<^verbatim>\<open>error\<close> is \<^verbatim>\<open>error.message || String(error)\<close>; the model keeps the error itself.
\<close>

datatype payload = Json bool string "js_error option" | Plain string

record response =
  headers :: "(string \<times> string) list"
  status :: nat
  payload :: payload

text \<open>
  A computation yields the effects it performed and either the exception it threw or
  its value.
\<close>

type_synonym 'a io = "effect list \<times> (js_error + 'a)"

definition ret :: "'a \<Rightarrow> 'a io" where
  "ret x = ([], Inr x)"

definition throw :: "js_error \<Rightarrow> 'a io" where
  "throw e = ([], Inl e)"

definition pure :: "js_error + 'a \<Rightarrow> 'a io" where
  "pure r = ([], r)"

definition emit :: "effect \<Rightarrow> unit io" where
  "emit eff = ([eff], Inr ())"

definition perform :: "effect \<Rightarrow> js_error + 'a \<Rightarrow> 'a io" where
  "perform eff outcome = ([eff], outcome)"

definition andThen :: "'a io \<Rightarrow> ('a \<Rightarrow> 'b io) \<Rightarrow> 'b io" where
  "andThen m f =
     (case m of
        (l, Inl e) \<Rightarrow> (l, Inl e)
      | (l, Inr x) \<Rightarrow> (case f x of (l', r) \<Rightarrow> (l @ l', r)))"

definition tryCatch :: "'a io \<Rightarrow> (js_error \<Rightarrow> 'a io) \<Rightarrow> 'a io" where
  "tryCatch m h =
     (case m of
        (l, Inl e) \<Rightarrow> (case h e of (l', r) \<Rightarrow> (l @ l', r))
      | (l, Inr x) \<Rightarrow> (l, Inr x))"

text \<open>The outermost \<^verbatim>\<open>try { ... } catch (error) { ... }\<close> of a handler, which answers.\<close>

definition catchAll ::
  "response io \<Rightarrow> (js_error \<Rightarrow> effect list \<times> response) \<Rightarrow> effect list \<times> response" where
  "catchAll m h =
     (case m of
        (l, Inr r) \<Rightarrow> (l, r)
      | (l, Inl e) \<Rightarrow> (case h e of (l', r) \<Rightarrow> (l @ l', r)))"

text \<open>The messages a trace handed to SendGrid.\<close>

fun sends :: "effect list \<Rightarrow> message list" where
  "sends [] = []"
| "sends (Send m # l) = m # sends l"
| "sends (x # l) = sends l"

text \<open>The directory queries of a trace.\<close>

fun queries :: "effect list \<Rightarrow> query list" where
  "queries [] = []"
| "queries (FirestoreGet q # l) = q # queries l"
| "queries (x # l) = queries l"

section \<open>Shared helpers of the handlers\<close>

text \<open>\<^verbatim>\<open>res.set(...)\<close>, three times, at the start of every handler.\<close>

definition cors :: "(string \<times> string) list" where
  "cors = [(''Access-Control-Allow-Origin'', ''*''),
           (''Access-Control-Allow-Methods'', ''POST, OPTIONS''),
           (''Access-Control-Allow-Headers'', ''Content-Type'')]"

text \<open>
  \<^verbatim>\<open>
  function sendError(res, httpCode, message, extra = {}) {
    return res.status(httpCode).json({ success: false, message, ...extra });
  }
  \<close>
  No caller passes \<^verbatim>\<open>extra\<close>.
\<close>

definition sendError :: "nat \<Rightarrow> string \<Rightarrow> response" where
  "sendError httpCode message =
     \<lparr>headers = cors, status = httpCode, payload = Json False message None\<rparr>"

text \<open>\<^verbatim>\<open>res.status(200).json({ success: true, message })\<close>.\<close>

definition sendOk :: "string \<Rightarrow> response" where
  "sendOk message = \<lparr>headers = cors, status = 200, payload = Json True message None\<rparr>"

text \<open>\<^verbatim>\<open>res.status(500).json({ success: false, message, error: ... })\<close> of the last catch.\<close>

definition sendFailure :: "string \<Rightarrow> js_error \<Rightarrow> response" where
  "sendFailure message err =
     \<lparr>headers = cors, status = 500, payload = Json False message (Some err)\<rparr>"

text \<open>
  \<^verbatim>\<open>initSendGridOrFail\<close>: without a (non-empty) key it logs and returns \<^verbatim>\<open>null\<close>; with
  one it returns the client. The model returns whether there is a client.
\<close>

definition initSendGridOrFail :: "env \<Rightarrow> bool io" where
  "initSendGridOrFail e =
     (case SENDGRID_API_KEY e of
        None \<Rightarrow>
          andThen (emit (ConsoleError ''[functions] Falta SENDGRID_API_KEY en las variables de entorno.''))
            (\<lambda>_. ret False)
      | Some sendgridKey \<Rightarrow>
          if sendgridKey = [] then
            andThen (emit (ConsoleError ''[functions] Falta SENDGRID_API_KEY en las variables de entorno.''))
              (\<lambda>_. ret False)
          else ret True)"

definition sgNotConfigured :: string where
  "sgNotConfigured = (''SendGrid no est'' @ [CHR 0xE1] @ '' configurado en el servidor.'')"

text \<open>\<^verbatim>\<open>error.response && error.response.body\<close>, serialised.\<close>

fun responseBody :: "js_error \<Rightarrow> string option" where
  "responseBody TypeError = None"
| "responseBody (Failure m b) = b"

text \<open>
  The delivery block, the same in the four handlers but for its labels:
  \<^verbatim>\<open>
  try {
    const [sgResponse] = await mailClient.send(msg);
    console.log(okLabel, sgResponse && sgResponse.statusCode);
  } catch (sgError) {
    console.error(errLabel, sgError);
    if (sgError.response && sgError.response.body) {
      console.error(detailLabel, JSON.stringify(sgError.response.body));
    }
    throw sgError;
  }
  \<close>
\<close>

definition deliver :: "env \<Rightarrow> string \<Rightarrow> string \<Rightarrow> string \<Rightarrow> message \<Rightarrow> unit io" where
  "deliver e okLabel errLabel detailLabel msg =
     tryCatch
       (andThen (perform (Send msg) (sgSend e msg)) (\<lambda>statusCode. emit (ConsoleLog okLabel)))
       (\<lambda>sgError.
          andThen (emit (ConsoleError errLabel)) (\<lambda>_.
          andThen (if responseBody sgError \<noteq> None then emit (ConsoleError detailLabel) else ret ()) (\<lambda>_.
          throw sgError)))"

text \<open>
  The last \<^verbatim>\<open>catch (error)\<close> of a handler, again the same but for its labels and message.
\<close>

definition generalError :: "string \<Rightarrow> string \<Rightarrow> string \<Rightarrow> js_error \<Rightarrow> effect list \<times> response" where
  "generalError errLabel detailLabel message err =
     ([ConsoleError errLabel] @ (if responseBody err \<noteq> None then [ConsoleError detailLabel] else []),
      sendFailure message err)"

text \<open>\<^verbatim>\<open>req.body || {}\<close>.\<close>

definition orEmptyObject :: "jsval \<Rightarrow> jsval" where
  "orEmptyObject v = (if truthy v then v else JObj [])"

text \<open>\<^verbatim>\<open>${v || d}\<close> in a template literal, for a string literal \<open>d\<close>.\<close>

definition orElse :: "jsval \<Rightarrow> string \<Rightarrow> js_error + string" where
  "orElse v d = (if truthy v then ToString v else Inr d)"

text \<open>
  A template literal: its parts, literal text and interpolations, are evaluated from
  left to right and concatenated; the first interpolation that throws ends it.
\<close>

fun template :: "(js_error + string) list \<Rightarrow> js_error + string" where
  "template [] = Inr []"
| "template (p # ps) =
     (case p of
        Inl e \<Rightarrow> Inl e
      | Inr s \<Rightarrow> (case template ps of Inl e \<Rightarrow> Inl e | Inr t \<Rightarrow> Inr (s @ t)))"

text \<open>\<^verbatim>\<open>from: { email: ..., name: ... }\<close>, the same in every message.\<close>

definition fromEmail :: string where
  "fromEmail = ''logisticabmm@gmail.com''"

definition fromName :: string where
  "fromName = ''Control de Transportes BMM''"

text \<open>
  \<^verbatim>\<open>collection("UsuarioAdmin").where("id", "in", [1, 2])\<close>, and
  \<^verbatim>\<open>doc.data()?.correo\<close>.
\<close>

definition adminsQuery :: query where
  "adminsQuery = WhereIn ''UsuarioAdmin'' ''id'' [1, 2]"

definition correo :: "jsval \<Rightarrow> jsval" where
  "correo d = (if d = JUndefined \<or> d = JNull then JUndefined else getProp d ''correo'')"

text \<open>
  \<^verbatim>\<open>adminsSnapshot.docs.map((doc) => normalizeEmail(doc.data()?.correo)).filter(Boolean)\<close>
\<close>

definition adminEmailsOf :: "jsval list \<Rightarrow> js_error + string list" where
  "adminEmailsOf docs = map_sum id filterBoolean (mapE (\<lambda>d. normalizeEmail (correo d)) docs)"

section \<open>sendNewProviderEmail\<close>

text \<open>
  Lines 100 to 118: the administrators' addresses.
  \<^verbatim>\<open>
  let adminEmails = Array.isArray(adminEmailsFromClient)
    ? adminEmailsFromClient.map(normalizeEmail).filter(Boolean)
    : [];
  if (!adminEmails.length) {
    const adminsSnapshot = await admin.firestore()
      .collection("UsuarioAdmin").where("id", "in", [1, 2]).get();
    adminEmails = adminsSnapshot.docs
      .map((doc) => normalizeEmail(doc.data()?.correo)).filter(Boolean);
  }
  adminEmails = [...new Set(adminEmails)];
  \<close>
\<close>

definition fromClient :: "jsval \<Rightarrow> js_error + string list" where
  "fromClient adminEmailsFromClient =
     (case adminEmailsFromClient of
        JArr vs \<Rightarrow> map_sum id filterBoolean (mapE normalizeEmail vs)
      | _ \<Rightarrow> Inr [])"

definition newProviderAdminEmails :: "env \<Rightarrow> jsval \<Rightarrow> string list io" where
  "newProviderAdminEmails e adminEmailsFromClient =
     andThen (pure (fromClient adminEmailsFromClient)) (\<lambda>adminEmails.
     andThen (if adminEmails = [] then
                andThen (perform (FirestoreGet adminsQuery) (firestoreGet e adminsQuery))
                  (\<lambda>docs. pure (adminEmailsOf docs))
              else ret adminEmails) (\<lambda>adminEmails.
     ret (newSet adminEmails)))"

definition newProviderHtmlBody :: "jsval \<Rightarrow> js_error + string" where
  "newProviderHtmlBody b =
     (let providerId = getProp b ''providerId'';
          providerEmail = getProp b ''providerEmail'';
          providerData = getProp b ''providerData'';
          linea = getProp providerData ''linea'';
          razon = getProp providerData ''razon'';
          direccionFiscal = getProp providerData ''direccionFiscal'';
          direccionPatios = getProp providerData ''direccionPatios'';
          frontera = getProp providerData ''frontera'';
          telefonoContacto = getProp providerData ''telefonoContacto''
      in template
      [Inr (''\<newline>      <h2>Nueva solicitud de registro de proveedor</h2>''),
       Inr (''\<newline>      <p>Se ha registrado un nuevo proveedor en el sistema de Control de Transportes.</p>''),
       Inr (''\<newline>      <h3>Datos del proveedor</h3>''),
       Inr (''\<newline>      <ul>''),
       Inr (''\<newline>        <li><strong>ID Proveedor:</strong> ''),
       orElse providerId ''-'',
       Inr ('' </li>''),
       Inr (''\<newline>        <li><strong>L'' @ [CHR 0xED] @ ''nea transportista / Nombre comercial:</strong> ''),
       orElse linea ''-'',
       Inr ('' </li>''),
       Inr (''\<newline>        <li><strong>Raz'' @ [CHR 0xF3] @ ''n social:</strong> ''),
       orElse razon ''-'',
       Inr ('' </li>''),
       Inr (''\<newline>        <li><strong>Direcci'' @ [CHR 0xF3] @ ''n fiscal:</strong> ''),
       orElse direccionFiscal ''-'',
       Inr ('' </li>''),
       Inr (''\<newline>        <li><strong>Direcci'' @ [CHR 0xF3] @ ''n de patios de maniobra:</strong> ''),
       orElse direccionPatios ''-'',
       Inr ('' </li>''),
       Inr (''\<newline>        <li><strong>Frontera por donde cruza:</strong> ''),
       orElse frontera ''-'',
       Inr ('' </li>''),
       Inr (''\<newline>        <li><strong>Contacto (tel'' @ [CHR 0xE9] @ ''fono):</strong> ''),
       orElse telefonoContacto ''-'',
       Inr ('' </li>''),
       Inr (''\<newline>        <li><strong>Contacto (correo electr'' @ [CHR 0xF3] @ ''nico):</strong> ''),
       orElse providerEmail ''-'',
       Inr ('' </li>''),
       Inr (''\<newline>      </ul>''),
       Inr (''\<newline>      <p>En el archivo ZIP adjunto se incluye la documentaci'' @ [CHR 0xF3] @ ''n enviada por el proveedor.</p>''),
       Inr (''\<newline>    '')])"

definition zipAttachments :: "jsval \<Rightarrow> attachment list" where
  "zipAttachments b =
     (let zipBase64 = getProp b ''zipBase64''; zipName = getProp b ''zipName''
      in if truthy zipBase64 \<and> truthy zipName
         then [\<lparr>content = zipBase64, filename = zipName,
                 mimeType = ''application/zip'', disposition = ''attachment''\<rparr>]
         else [])"

definition sendNewProviderEmail_try :: "env \<Rightarrow> jsval \<Rightarrow> response io" where
  "sendNewProviderEmail_try e reqBody =
     andThen (initSendGridOrFail e) (\<lambda>mailClient.
     if \<not> mailClient then ret (sendError 500 sgNotConfigured)
     else
       let b = orEmptyObject reqBody in
       if \<not> truthy (getProp b ''providerData'')
       then ret (sendError 400 ''Faltan los datos del proveedor.'')
       else
         andThen (newProviderAdminEmails e (getProp b ''adminEmails'')) (\<lambda>adminEmails.
         if adminEmails = [] then
           andThen (emit (ConsoleError ''[sendNewProviderEmail] No hay correos de administradores configurados.'')) (\<lambda>_.
           ret (sendError 500 ''Los administradores no tienen correo configurado.''))
         else
           andThen (pure (newProviderHtmlBody b)) (\<lambda>htmlBody.
           let msg = \<lparr>msg_to = Multiple adminEmails,
                      msg_from_email = fromEmail, msg_from_name = fromName,
                      msg_subject = ''Nueva solicitud de registro de proveedor'',
                      msg_text = None,
                      msg_html = htmlBody,
                      msg_attachments = Some (zipAttachments b)\<rparr>
           in andThen (deliver e ''[sendNewProviderEmail] Correo (nuevo proveedor) enviado. Status:''
                         ''[sendNewProviderEmail] Error SendGrid (nuevo proveedor):''
                         ''[sendNewProviderEmail] Detalle SendGrid:'' msg) (\<lambda>_.
              ret (sendOk ''Correo enviado correctamente a los administradores.'')))))"

definition sendNewProviderEmail :: "env \<Rightarrow> request \<Rightarrow> effect list \<times> response" where
  "sendNewProviderEmail e req =
     (if httpMethod req = ''OPTIONS''
      then ([], \<lparr>headers = cors, status = 204, payload = Plain []\<rparr>)
      else if httpMethod req \<noteq> ''POST''
      then ([], sendError 405 ''Method Not Allowed'')
      else catchAll (sendNewProviderEmail_try e (body req))
             (generalError ''[sendNewProviderEmail] Error general:''
                ''[sendNewProviderEmail] Detalle SendGrid:''
                (''Ocurri'' @ [CHR 0xF3] @ '' un error al enviar el correo.'')))"

section \<open>sendAccessCredentials\<close>

text \<open>\<^verbatim>\<open>(v || "").toString().trim()\<close>.\<close>

definition trimmed :: "jsval \<Rightarrow> js_error + string" where
  "trimmed v = map_sum id trim (if truthy v then ToString v else Inr [])"

text \<open>
  \<^verbatim>\<open>
  const rolFinal = (rol || "").toString().trim() || "Usuario";
  \<close>
\<close>

definition rolFinalOf :: "jsval \<Rightarrow> js_error + string" where
  "rolFinalOf rol = map_sum id (\<lambda>s. if s \<noteq> [] then s else ''Usuario'') (trimmed rol)"

definition accessCredentialsHtmlBody :: "string \<Rightarrow> string \<Rightarrow> string \<Rightarrow> js_error + string" where
  "accessCredentialsHtmlBody usuarioFinal passFinal rolFinal =
     template
      [Inr (''\<newline>      <h2>Acceso al sistema de Control de Transportes BMM</h2>''),
       Inr (''\<newline>      <p>Tu usuario ha sido aprobado. Estas son tus credenciales de acceso:</p>''),
       Inr (''\<newline>      <ul>''),
       Inr (''\<newline>        <li><strong>Usuario:</strong> ''),
       Inr usuarioFinal,
       Inr (''</li>''),
       Inr (''\<newline>        <li><strong>Contrase'' @ [CHR 0xF1] @ ''a:</strong> ''),
       Inr passFinal,
       Inr (''</li>''),
       Inr (''\<newline>        <li><strong>Rol:</strong> ''),
       Inr rolFinal,
       Inr (''</li>''),
       Inr (''\<newline>      </ul>''),
       Inr (''\<newline>      <p>Por favor ingresa al sistema con estas credenciales.</p>''),
       Inr (''\<newline>    '')]"

definition sendAccessCredentials_try :: "env \<Rightarrow> jsval \<Rightarrow> response io" where
  "sendAccessCredentials_try e reqBody =
     andThen (initSendGridOrFail e) (\<lambda>mailClient.
     if \<not> mailClient then ret (sendError 500 sgNotConfigured)
     else
       andThen (emit (ConsoleLog ''[sendAccessCredentials] Body recibido:'')) (\<lambda>_.
       let b = orEmptyObject reqBody in
       andThen (pure (normalizeEmail (getProp b ''to''))) (\<lambda>toNorm.
       andThen (pure (trimmed (getProp b ''usuario''))) (\<lambda>usuarioFinal.
       andThen (pure (trimmed (getProp b ''contrasena''))) (\<lambda>passFinal.
       andThen (pure (rolFinalOf (getProp b ''rol''))) (\<lambda>rolFinal.
       if toNorm = [] then
         andThen (emit (ConsoleError (''[sendAccessCredentials] Falta '' @ [CHR 0x27] @ ''to'' @ [CHR 0x27] @ '' (correoDestino).''))) (\<lambda>_.
         ret (sendError 400 ''Falta el correo del usuario.''))
       else if usuarioFinal = [] \<or> passFinal = [] then
         andThen (emit (ConsoleError (''[sendAccessCredentials] Falta usuario o contrase'' @ [CHR 0xF1] @ ''a.''))) (\<lambda>_.
         ret (sendError 400 (''Faltan usuario o contrase'' @ [CHR 0xF1] @ ''a.'')))
       else
         andThen (pure (accessCredentialsHtmlBody usuarioFinal passFinal rolFinal)) (\<lambda>htmlBody.
         let msg = \<lparr>msg_to = Single toNorm,
                    msg_from_email = fromEmail, msg_from_name = fromName,
                    msg_subject = ''Credenciales de acceso - Control de Transportes BMM'',
                    msg_text = None,
                    msg_html = htmlBody,
                    msg_attachments = None\<rparr>
         in andThen (deliver e ''[sendAccessCredentials] Credenciales enviadas. Status:''
                       ''[sendAccessCredentials] Error SendGrid:''
                       ''[sendAccessCredentials] Detalle SendGrid:'' msg) (\<lambda>_.
            ret (sendOk ''Correo de credenciales enviado correctamente.'')))))))))"

definition sendAccessCredentials :: "env \<Rightarrow> request \<Rightarrow> effect list \<times> response" where
  "sendAccessCredentials e req =
     (if httpMethod req = ''OPTIONS''
      then ([], \<lparr>headers = cors, status = 204, payload = Plain []\<rparr>)
      else if httpMethod req \<noteq> ''POST''
      then ([], sendError 405 ''Method Not Allowed'')
      else catchAll (sendAccessCredentials_try e (body req))
             (generalError ''[sendAccessCredentials] Error general:''
                ''[sendAccessCredentials] Detalle SendGrid:''
                (''Ocurri'' @ [CHR 0xF3] @ '' un error al enviar el correo.'')))"

section \<open>sendAppointmentNotification\<close>

text \<open>
  Lines 371 to 387: the recipients of a pre-registration.
  \<^verbatim>\<open>
  let adminEmails = [];
  try {
    const adminsSnapshot = await admin.firestore()
      .collection("UsuarioAdmin").where("id", "in", [1, 2]).get();
    adminEmails = adminsSnapshot.docs
      .map((doc) => normalizeEmail(doc.data()?.correo)).filter(Boolean);
  } catch (e) {
    console.error("[sendAppointmentNotification] Error obteniendo admins:", e);
  }
  const allRecipients = [...new Set([provEmailNorm, ...adminEmails].filter(Boolean))];
  \<close>
\<close>

definition appointmentRecipients :: "env \<Rightarrow> string \<Rightarrow> string list io" where
  "appointmentRecipients e provEmailNorm =
     andThen (tryCatch
                (andThen (perform (FirestoreGet adminsQuery) (firestoreGet e adminsQuery))
                   (\<lambda>docs. pure (adminEmailsOf docs)))
                (\<lambda>err.
                   andThen (emit (ConsoleError ''[sendAppointmentNotification] Error obteniendo admins:''))
                     (\<lambda>_. ret []))) (\<lambda>adminEmails.
     ret (newSet (filterBoolean (provEmailNorm # adminEmails))))"

text \<open>\<^verbatim>\<open>(notas || "").replace(/</g, "&lt;") || "-"\<close>: only a string has \<^verbatim>\<open>replace\<close>.\<close>

definition notasEscaped :: "jsval \<Rightarrow> js_error + string" where
  "notasEscaped notas =
     (case (if truthy notas then notas else JStr []) of
        JStr s \<Rightarrow> Inr (if replace_lt s \<noteq> [] then replace_lt s else ''-'')
      | _ \<Rightarrow> Inl TypeError)"

definition appointmentHtmlBody :: "jsval \<Rightarrow> string \<Rightarrow> js_error + string" where
  "appointmentHtmlBody b provEmailNorm =
     (let providerLinea = getProp b ''providerLinea'';
          providerRazon = getProp b ''providerRazon'';
          providerFrontera = getProp b ''providerFrontera'';
          citaId = getProp b ''citaId'';
          cita = getProp b ''cita'';
          fecha = getProp cita ''fecha'';
          hora = getProp cita ''hora'';
          horaExtra = getProp cita ''horaExtra'';
          tipoVisita = getProp cita ''tipoVisita'';
          tipoTransporte = getProp cita ''tipoTransporte'';
          destino = getProp cita ''destino'';
          chofer = getProp cita ''chofer'';
          lineaTransporte = getProp cita ''lineaTransporte'';
          placas = getProp cita ''placas'';
          factura = getProp cita ''factura'';
          caja = getProp cita ''caja'';
          sello = getProp cita ''sello'';
          recolectaCaja = getProp cita ''recolectaCaja'';
          cajaDeja = getProp cita ''cajaDeja'';
          cajaRecolecta = getProp cita ''cajaRecolecta'';
          notas = getProp cita ''notas'';
          esDomingo = getProp cita ''esDomingo''
      in template
      [Inr (''\<newline>      <h2>Pre-registro de cita de acceso - Control de Transportes BMM</h2>''),
       Inr (''\<newline>      <p>Se ha registrado una <strong>nueva cita</strong> con estatus <strong>CitaPendiente</strong>.</p>''),
       Inr (''\<newline>      <h3>Datos del proveedor</h3>''),
       Inr (''\<newline>      <ul>''),
       Inr (''\<newline>        <li><strong>L'' @ [CHR 0xED] @ ''nea:</strong> ''),
       orElse providerLinea ''-'',
       Inr (''</li>''),
       Inr (''\<newline>        <li><strong>Raz'' @ [CHR 0xF3] @ ''n social:</strong> ''),
       orElse providerRazon ''-'',
       Inr (''</li>''),
       Inr (''\<newline>        <li><strong>Frontera:</strong> ''),
       orElse providerFrontera ''-'',
       Inr (''</li>''),
       Inr (''\<newline>        <li><strong>Correo de contacto:</strong> ''),
       Inr (if provEmailNorm \<noteq> [] then provEmailNorm else ''-''),
       Inr (''</li>''),
       Inr (''\<newline>      </ul>''),
       Inr (''\<newline>      <h3>Datos de la cita</h3>''),
       Inr (''\<newline>      <ul>''),
       Inr (''\<newline>        <li><strong>ID Cita:</strong> ''),
       orElse citaId ''-'',
       Inr (''</li>''),
       Inr (''\<newline>        <li><strong>Fecha:</strong> ''),
       orElse fecha ''-'',
       Inr (''</li>''),
       Inr (''\<newline>        <li><strong>Hora principal:</strong> ''),
       orElse hora ''-'',
       Inr (''</li>''),
       Inr (''\<newline>        <li><strong>Hora bloqueada adicional:</strong> ''),
       orElse horaExtra ''-'',
       Inr (''</li>''),
       Inr (''\<newline>        <li><strong>Tipo de visita:</strong> ''),
       orElse tipoVisita ''-'',
       Inr (''</li>''),
       Inr (''\<newline>        <li><strong>Tipo de transporte:</strong> ''),
       orElse tipoTransporte ''-'',
       Inr (''</li>''),
       Inr (''\<newline>        <li><strong>Destino:</strong> ''),
       orElse destino ''-'',
       Inr (''</li>''),
       Inr (''\<newline>        <li><strong>Nombre del chofer:</strong> ''),
       orElse chofer ''-'',
       Inr (''</li>''),
       Inr (''\<newline>        <li><strong>Transporte / L'' @ [CHR 0xED] @ ''nea:</strong> ''),
       orElse lineaTransporte ''-'',
       Inr (''</li>''),
       Inr (''\<newline>        <li><strong>No. placas:</strong> ''),
       orElse placas ''-'',
       Inr (''</li>''),
       Inr (''\<newline>        <li><strong>Factura:</strong> ''),
       orElse factura ''-'',
       Inr (''</li>''),
       Inr (''\<newline>        <li><strong>No. caja:</strong> ''),
       orElse caja ''-'',
       Inr (''</li>''),
       Inr (''\<newline>        <li><strong>No. sello:</strong> ''),
       orElse sello ''-'',
       Inr (''</li>''),
       Inr (''\<newline>        <li><strong>'' @ [CHR 0xBF] @ ''Recolecta caja?:</strong> ''),
       orElse recolectaCaja ''No'',
       Inr (''</li>''),
       Inr (''\<newline>        <li><strong>Caja que deja:</strong> ''),
       orElse cajaDeja ''-'',
       Inr (''</li>''),
       Inr (''\<newline>        <li><strong>Caja que recolecta:</strong> ''),
       orElse cajaRecolecta ''-'',
       Inr (''</li>''),
       Inr (''\<newline>        <li><strong>Es domingo:</strong> ''),
       Inr (if truthy esDomingo then ''S'' @ [CHR 0xED] @ '', requiere aprobaci'' @ [CHR 0xF3] @ ''n especial'' else ''No''),
       Inr (''</li>''),
       Inr (''\<newline>      </ul>''),
       Inr (''\<newline>      <h3>Comentarios</h3>''),
       Inr (''\<newline>      <p>''),
       notasEscaped notas,
       Inr (''</p>''),
       Inr (''\<newline>      <p style=\"margin-top:16px;\">''),
       Inr (''\<newline>        <em>Importante:</em> Esta notificaci'' @ [CHR 0xF3] @ ''n corresponde a un <strong>pre-registro</strong>.''),
       Inr (''\<newline>        La cita deber'' @ [CHR 0xE1] @ '' ser revisada y aprobada por el '' @ [CHR 0xE1] @ ''rea de log'' @ [CHR 0xED] @ ''stica para considerarse como''),
       Inr (''\<newline>        <strong>CitaConfirmada</strong>.''),
       Inr (''\<newline>      </p>''),
       Inr (''\<newline>    '')])"

definition sendAppointmentNotification_try :: "env \<Rightarrow> jsval \<Rightarrow> response io" where
  "sendAppointmentNotification_try e reqBody =
     andThen (initSendGridOrFail e) (\<lambda>mailClient.
     if \<not> mailClient then ret (sendError 500 sgNotConfigured)
     else
       let b = orEmptyObject reqBody;
           providerEmail = getProp b ''providerEmail'';
           cita = getProp b ''cita''
       in
       if \<not> truthy providerEmail \<or> \<not> truthy cita
          \<or> \<not> truthy (getProp cita ''fecha'') \<or> \<not> truthy (getProp cita ''hora'')
       then ret (sendError 400 (''Faltan datos para enviar la confirmaci'' @ [CHR 0xF3] @ ''n de cita.''))
       else
         andThen (pure (normalizeEmail providerEmail)) (\<lambda>provEmailNorm.
         andThen (appointmentRecipients e provEmailNorm) (\<lambda>allRecipients.
         if allRecipients = [] then
           andThen (emit (ConsoleError ''[sendAppointmentNotification] No hay destinatarios para la cita.'')) (\<lambda>_.
           ret (sendError 500 ''No se encontraron correos configurados para notificar la cita.''))
         else
           andThen (pure (appointmentHtmlBody b provEmailNorm)) (\<lambda>htmlBody.
           let msg = \<lparr>msg_to = Multiple allRecipients,
                      msg_from_email = fromEmail, msg_from_name = fromName,
                      msg_subject = ''Pre-registro de cita de acceso - Control de Transportes BMM'',
                      msg_text = None,
                      msg_html = htmlBody,
                      msg_attachments = None\<rparr>
           in andThen (deliver e ''[sendAppointmentNotification] Correo de cita enviado. Status:''
                         ''[sendAppointmentNotification] Error SendGrid:''
                         ''[sendAppointmentNotification] Detalle SendGrid:'' msg) (\<lambda>_.
              ret (sendOk (''Notificaci'' @ [CHR 0xF3] @ ''n de cita enviada correctamente.'')))))))"

definition sendAppointmentNotification :: "env \<Rightarrow> request \<Rightarrow> effect list \<times> response" where
  "sendAppointmentNotification e req =
     (if httpMethod req = ''OPTIONS''
      then ([], \<lparr>headers = cors, status = 204, payload = Plain []\<rparr>)
      else if httpMethod req \<noteq> ''POST''
      then ([], sendError 405 ''Method Not Allowed'')
      else catchAll (sendAppointmentNotification_try e (body req))
             (generalError ''[sendAppointmentNotification] Error general:''
                ''[sendAppointmentNotification] Detalle SendGrid:''
                (''Ocurri'' @ [CHR 0xF3] @ '' un error al enviar la notificaci'' @ [CHR 0xF3] @ ''n de cita.'')))"

section \<open>sendCitaConfirmacion\<close>

text \<open>\<^verbatim>\<open>${horaExtra ? ` (hora extra: ${horaExtra})` : ""}\<close>\<close>

definition horaExtraSuffix :: "jsval \<Rightarrow> js_error + string" where
  "horaExtraSuffix horaExtra =
     (if truthy horaExtra
      then template [Inr '' (hora extra: '', ToString horaExtra, Inr '')'']
      else Inr [])"

text \<open>\<^verbatim>\<open>(notas && notas.replace(/\n/g, "<br>")) || "-"\<close>: only a string has \<^verbatim>\<open>replace\<close>.\<close>

definition notasWithBreaks :: "jsval \<Rightarrow> js_error + string" where
  "notasWithBreaks notas =
     (if \<not> truthy notas then Inr ''-''
      else case notas of
             JStr s \<Rightarrow> Inr (if replace_newline s \<noteq> [] then replace_newline s else ''-'')
           | _ \<Rightarrow> Inl TypeError)"

definition citaSubject :: "jsval \<Rightarrow> js_error + string" where
  "citaSubject folio =
     template
      [Inr (''Confirmaci'' @ [CHR 0xF3] @ ''n de cita de transporte - Folio ''),
       ToString folio]"

definition citaTextBody :: "jsval \<Rightarrow> jsval \<Rightarrow> js_error + string" where
  "citaTextBody folio datosCita =
     (let linea = getProp datosCita ''linea'';
          placas = getProp datosCita ''placas'';
          tipoTransporte = getProp datosCita ''tipoTransporte'';
          tipoVisita = getProp datosCita ''tipoVisita'';
          fecha = getProp datosCita ''fecha'';
          hora = getProp datosCita ''hora'';
          horaExtra = getProp datosCita ''horaExtra'';
          chofer = getProp datosCita ''chofer'';
          destino = getProp datosCita ''destino'';
          factura = getProp datosCita ''factura'';
          notas = getProp datosCita ''notas'';
          frontera = getProp datosCita ''frontera'';
          recolectaCaja = getProp datosCita ''recolectaCaja''
      in map_sum id trim (template
      [Inr (''\<newline>Hola,''),
       Inr (''\<newline>''),
       Inr (''\<newline>Tu cita de transporte ha sido CONFIRMADA.''),
       Inr (''\<newline>''),
       Inr (''\<newline>Detalles de la cita:''),
       Inr (''\<newline>- Folio: ''),
       ToString folio,
       Inr (''\<newline>- Fecha: ''),
       orElse fecha ''-'',
       Inr (''\<newline>- Hora: ''),
       orElse hora ''-'',
       horaExtraSuffix horaExtra,
       Inr (''\<newline>- L'' @ [CHR 0xED] @ ''nea transportista: ''),
       orElse linea ''-'',
       Inr (''\<newline>- Placas: ''),
       orElse placas ''-'',
       Inr (''\<newline>- Tipo de transporte: ''),
       orElse tipoTransporte ''-'',
       Inr (''\<newline>- Tipo de visita: ''),
       orElse tipoVisita ''-'',
       Inr (''\<newline>- Chofer: ''),
       orElse chofer ''-'',
       Inr (''\<newline>- Destino: ''),
       orElse destino ''-'',
       Inr (''\<newline>- Factura: ''),
       orElse factura ''-'',
       Inr (''\<newline>- Frontera: ''),
       orElse frontera ''-'',
       Inr (''\<newline>- '' @ [CHR 0xBF] @ ''Recolecta caja?: ''),
       orElse recolectaCaja ''-'',
       Inr (''\<newline>- Comentarios / notas: ''),
       orElse notas ''-'',
       Inr (''\<newline>''),
       Inr (''\<newline>Te pedimos revisar el documento adjunto \"Indicaciones de ingreso a transportistas\"''),
       Inr (''\<newline>y tener tu folio a la mano al llegar a caseta, ya que te ser'' @ [CHR 0xE1] @ '' solicitado para''),
       Inr (''\<newline>permitir el acceso.''),
       Inr (''\<newline>''),
       Inr (''\<newline>Saludos,''),
       Inr (''\<newline>Beiersdorf Manufacturing M'' @ [CHR 0xE9] @ ''xico''),
       Inr (''\<newline>Control de Transportes BMM''),
       Inr (''\<newline>'')]))"

definition citaHtmlBody :: "jsval \<Rightarrow> jsval \<Rightarrow> js_error + string" where
  "citaHtmlBody folio datosCita =
     (let linea = getProp datosCita ''linea'';
          placas = getProp datosCita ''placas'';
          tipoTransporte = getProp datosCita ''tipoTransporte'';
          tipoVisita = getProp datosCita ''tipoVisita'';
          fecha = getProp datosCita ''fecha'';
          hora = getProp datosCita ''hora'';
          horaExtra = getProp datosCita ''horaExtra'';
          chofer = getProp datosCita ''chofer'';
          destino = getProp datosCita ''destino'';
          factura = getProp datosCita ''factura'';
          notas = getProp datosCita ''notas'';
          frontera = getProp datosCita ''frontera'';
          recolectaCaja = getProp datosCita ''recolectaCaja''
      in template
      [Inr (''\<newline>      <p>Hola,</p>''),
       Inr (''\<newline>''),
       Inr (''\<newline>      <p>Tu cita de transporte ha sido <strong>CONFIRMADA</strong>.</p>''),
       Inr (''\<newline>''),
       Inr (''\<newline>      <p><strong>Detalles de la cita</strong></p>''),
       Inr (''\<newline>      <ul>''),
       Inr (''\<newline>        <li><strong>Folio:</strong> ''),
       ToString folio,
       Inr (''</li>''),
       Inr (''\<newline>        <li><strong>Fecha:</strong> ''),
       orElse fecha ''-'',
       Inr (''</li>''),
       Inr (''\<newline>        <li><strong>Hora:</strong> ''),
       orElse hora ''-'',
       horaExtraSuffix horaExtra,
       Inr (''</li>''),
       Inr (''\<newline>        <li><strong>L'' @ [CHR 0xED] @ ''nea transportista:</strong> ''),
       orElse linea ''-'',
       Inr (''</li>''),
       Inr (''\<newline>        <li><strong>Placas:</strong> ''),
       orElse placas ''-'',
       Inr (''</li>''),
       Inr (''\<newline>        <li><strong>Tipo de transporte:</strong> ''),
       orElse tipoTransporte ''-'',
       Inr (''</li>''),
       Inr (''\<newline>        <li><strong>Tipo de visita:</strong> ''),
       orElse tipoVisita ''-'',
       Inr (''</li>''),
       Inr (''\<newline>        <li><strong>Chofer:</strong> ''),
       orElse chofer ''-'',
       Inr (''</li>''),
       Inr (''\<newline>        <li><strong>Destino:</strong> ''),
       orElse destino ''-'',
       Inr (''</li>''),
       Inr (''\<newline>        <li><strong>Factura:</strong> ''),
       orElse factura ''-'',
       Inr (''</li>''),
       Inr (''\<newline>        <li><strong>Frontera:</strong> ''),
       orElse frontera ''-'',
       Inr (''</li>''),
       Inr (''\<newline>        <li><strong>'' @ [CHR 0xBF] @ ''Recolecta caja?:</strong> ''),
       orElse recolectaCaja ''-'',
       Inr (''</li>''),
       Inr (''\<newline>        <li><strong>Comentarios / notas:</strong> ''),
       notasWithBreaks notas,
       Inr (''</li>''),
       Inr (''\<newline>      </ul>''),
       Inr (''\<newline>''),
       Inr (''\<newline>      <p>''),
       Inr (''\<newline>        Te pedimos revisar el documento adjunto''),
       Inr (''\<newline>        <strong>\"Indicaciones de ingreso a transportistas\"</strong> y tener tu folio''),
       Inr (''\<newline>        a la mano al llegar a caseta, ya que te ser'' @ [CHR 0xE1] @ '' solicitado para permitir el acceso.''),
       Inr (''\<newline>      </p>''),
       Inr (''\<newline>''),
       Inr (''\<newline>      <p>Saludos,<br>''),
       Inr (''\<newline>      Beiersdorf Manufacturing M'' @ [CHR 0xE9] @ ''xico<br>''),
       Inr (''\<newline>      Control de Transportes BMM</p>''),
       Inr (''\<newline>    '')])"

text \<open>
  Lines 630 to 656: the PDF of \<^verbatim>\<open>functions/docs\<close>, read and attached; when the read
  throws, the error is logged and the list of attachments stays empty. The path is
  relative to \<^verbatim>\<open>__dirname\<close>.
\<close>

definition pdfName :: string where
  "pdfName = ''Indicaciones de ingreso a transportistas.pdf''"

definition pdfPath :: string where
  "pdfPath = ''docs/'' @ pdfName"

definition loadIndicaciones :: "env \<Rightarrow> attachment list io" where
  "loadIndicaciones e =
     tryCatch
       (andThen (perform (ReadFileSync pdfPath) (readFileSync e pdfPath)) (\<lambda>pdfBase64.
        ret [\<lparr>content = JStr pdfBase64, filename = JStr pdfName,
               mimeType = ''application/pdf'', disposition = ''attachment''\<rparr>]))
       (\<lambda>err.
          andThen (emit (ConsoleError ''[sendCitaConfirmacion] No se pudo leer el PDF de indicaciones:''))
            (\<lambda>_. ret []))"

definition sendCitaConfirmacion_try :: "env \<Rightarrow> jsval \<Rightarrow> response io" where
  "sendCitaConfirmacion_try e reqBody =
     andThen (initSendGridOrFail e) (\<lambda>mailClient.
     if \<not> mailClient then ret (sendError 500 sgNotConfigured)
     else
       let b = orEmptyObject reqBody;
           to = getProp b ''to'';
           folio = getProp b ''folio'';
           datosCita = getProp b ''datosCita''
       in
       if \<not> truthy to \<or> \<not> truthy folio \<or> \<not> truthy datosCita
       then ret (sendError 400 (''Faltan par'' @ [CHR 0xE1] @ ''metros obligatorios (to, folio, datosCita).''))
       else
         andThen (pure (normalizeEmail to)) (\<lambda>toNorm.
         andThen (pure (citaSubject folio)) (\<lambda>subject.
         andThen (pure (citaTextBody folio datosCita)) (\<lambda>textBody.
         andThen (pure (citaHtmlBody folio datosCita)) (\<lambda>htmlBody.
         andThen (loadIndicaciones e) (\<lambda>attachments.
         let msg = \<lparr>msg_to = Single toNorm,
                    msg_from_email = fromEmail, msg_from_name = fromName,
                    msg_subject = subject,
                    msg_text = Some textBody,
                    msg_html = htmlBody,
                    msg_attachments = (if attachments \<noteq> [] then Some attachments else None)\<rparr>
         in andThen (deliver e (''[sendCitaConfirmacion] Correo de confirmaci'' @ [CHR 0xF3] @ ''n enviado. Status:'')
                       ''[sendCitaConfirmacion] Error SendGrid:''
                       ''[sendCitaConfirmacion] Detalle SendGrid:'' msg) (\<lambda>_.
            ret (sendOk (''Correo de confirmaci'' @ [CHR 0xF3] @ ''n de cita enviado correctamente.'')))))))))"

definition sendCitaConfirmacion :: "env \<Rightarrow> request \<Rightarrow> effect list \<times> response" where
  "sendCitaConfirmacion e req =
     (if httpMethod req = ''OPTIONS''
      then ([], \<lparr>headers = cors, status = 204, payload = Plain []\<rparr>)
      else if httpMethod req \<noteq> ''POST''
      then ([], sendError 405 ''Method Not Allowed'')
      else catchAll (sendCitaConfirmacion_try e (body req))
             (generalError ''[sendCitaConfirmacion] Error general:''
                ''[sendCitaConfirmacion] Detalle SendGrid:''
                (''Ocurri'' @ [CHR 0xF3] @ '' un error al enviar la confirmaci'' @ [CHR 0xF3] @ ''n de cita.'')))"

section \<open>Notions of the specification\<close>




text \<open>A configured server: the SendGrid key is set, and not empty.\<close>

definition configured :: "env \<Rightarrow> bool" where
  "configured e = (case SENDGRID_API_KEY e of None \<Rightarrow> False | Some k \<Rightarrow> k \<noteq> [])"

text \<open>
  A request that passes the checks of its handler and reaches the resolution of its
  recipients: a POST whose body has the fields the handler requires.
\<close>

definition validNewProvider :: "request \<Rightarrow> bool" where
  "validNewProvider req =
     (httpMethod req = ''POST'' \<and> truthy (getProp (orEmptyObject (body req)) ''providerData''))"

definition validAppointment :: "request \<Rightarrow> bool" where
  "validAppointment req =
     (httpMethod req = ''POST''
      \<and> truthy (getProp (orEmptyObject (body req)) ''providerEmail'')
      \<and> truthy (getProp (orEmptyObject (body req)) ''cita'')
      \<and> truthy (getProp (getProp (orEmptyObject (body req)) ''cita'') ''fecha'')
      \<and> truthy (getProp (getProp (orEmptyObject (body req)) ''cita'') ''hora''))"

definition validConfirmacion :: "request \<Rightarrow> bool" where
  "validConfirmacion req =
     (httpMethod req = ''POST''
      \<and> truthy (getProp (orEmptyObject (body req)) ''to'')
      \<and> truthy (getProp (orEmptyObject (body req)) ''folio'')
      \<and> truthy (getProp (orEmptyObject (body req)) ''datosCita''))"

section \<open>A sample environment\<close>

text \<open>
  A configured server whose directory holds two administrators with two spellings of one
  address, whose PDF is readable and whose provider accepts every message.
\<close>

definition sampleEnv :: env where
  "sampleEnv =
     \<lparr>SENDGRID_API_KEY = Some ''SG.key'',
      firestoreGet = (\<lambda>q. Inr [JObj [(''id'', JNum ''1''), (''correo'', JStr ''a@x.com'')],
                                JObj [(''id'', JNum ''2''), (''correo'', JStr ''A@X.com'')]]),
      readFileSync = (\<lambda>p. Inr ''JVBERi0xLjQK''),
      sgSend = (\<lambda>m. Inr 202)\<rparr>"

text \<open>
  Fields as a form sends them: a scalar is anything but an array or an object, and the
  notes are a string or absent.
\<close>

definition scalar :: "jsval \<Rightarrow> bool" where
  "scalar v = (case v of JArr vs \<Rightarrow> False | JObj kvs \<Rightarrow> False | _ \<Rightarrow> True)"

definition textOrAbsent :: "jsval \<Rightarrow> bool" where
  "textOrAbsent v = (case v of JUndefined \<Rightarrow> True | JNull \<Rightarrow> True | JStr s \<Rightarrow> True | _ \<Rightarrow> False)"

section \<open>Lemmas: strings\<close>










lemma dropWhile_all: "list_all P p \<Longrightarrow> dropWhile P (p @ xs) = dropWhile P xs"
  by (induction p) simp_all




lemma newSet_aux:
  "distinct acc \<Longrightarrow> distinct (foldl setAdd acc xs) \<and> set (foldl setAdd acc xs) = set acc \<union> set xs"
  by (induction xs arbitrary: acc) (auto simp: setAdd_def)

lemma distinct_newSet: "distinct (newSet xs)"
  using newSet_aux [of "[]" xs] by (simp add: newSet_def)

lemma set_newSet: "set (newSet xs) = set xs"
  using newSet_aux [of "[]" xs] by (simp add: newSet_def)



lemmas str_eval = toLowerCase_def trim_def isWhiteSpace_def lowerChar_def char_of_def bit_Suc_0_iff

section \<open>Lemmas: normalizeEmail and spellings\<close>

lemma normalizeEmail_JStr: "normalizeEmail (JStr x) = Inr (toLowerCase (trim x))"
  by (cases "x = []") (simp_all add: normalizeEmail_def trim_def toLowerCase_def)

lemma mapE_normalizeEmail_JStr:
  "mapE normalizeEmail (map JStr xs) = Inr (map (\<lambda>x. toLowerCase (trim x)) xs)"
  by (induction xs) (simp_all add: normalizeEmail_JStr)




section \<open>Lemmas: resolution and delivery\<close>

lemmas io_defs = andThen_def ret_def pure_def emit_def perform_def throw_def tryCatch_def catchAll_def

lemma fromClient_strings:
  "fromClient (JArr (map JStr ss)) = Inr (filterBoolean (map (\<lambda>s. toLowerCase (trim s)) ss))"
  by (simp add: fromClient_def mapE_normalizeEmail_JStr)

lemma mapE_map: "mapE f (map g xs) = mapE (\<lambda>x. f (g x)) xs"
  by (induction xs) (simp_all split: sum.splits)

lemma adminEmailsOf_strings:
  assumes "map correo docs = map JStr ss"
  shows "adminEmailsOf docs = Inr (filterBoolean (map (\<lambda>s. toLowerCase (trim s)) ss))"
proof -
  have "mapE (\<lambda>d. normalizeEmail (correo d)) docs = mapE normalizeEmail (map correo docs)"
    by (simp add: mapE_map)
  then show ?thesis
    by (simp add: adminEmailsOf_def assms mapE_normalizeEmail_JStr)
qed

lemma newProviderAdminEmails_explicit:
  "fromClient v = Inr xs \<Longrightarrow> xs \<noteq> [] \<Longrightarrow> newProviderAdminEmails e v = ([], Inr (newSet xs))"
  by (simp add: newProviderAdminEmails_def io_defs)

lemma newProviderAdminEmails_directory:
  "fromClient v = Inr [] \<Longrightarrow>
   newProviderAdminEmails e v =
     ([FirestoreGet adminsQuery],
      (case firestoreGet e adminsQuery of
         Inl err \<Rightarrow> Inl err
       | Inr docs \<Rightarrow> map_sum id newSet (adminEmailsOf docs)))"
  by (simp add: newProviderAdminEmails_def io_defs split: sum.splits)

lemma newProviderAdminEmails_throws:
  "fromClient v = Inl err \<Longrightarrow> newProviderAdminEmails e v = ([], Inl err)"
  by (simp add: newProviderAdminEmails_def io_defs)

lemma queries_append: "queries (a @ b) = queries a @ queries b"
  by (induction a rule: queries.induct) simp_all

lemma sends_append: "sends (a @ b) = sends a @ sends b"
  by (induction a rule: sends.induct) simp_all

lemma initSendGridOrFail_configured: "configured e \<Longrightarrow> initSendGridOrFail e = ([], Inr True)"
  by (simp add: configured_def initSendGridOrFail_def io_defs split: option.splits)

text \<open>What the delivery block leaves in the trace.\<close>

lemma deliver_cases:
  "deliver e a b c msg =
     (case sgSend e msg of
        Inr code \<Rightarrow> ([Send msg, ConsoleLog a], Inr ())
      | Inl err \<Rightarrow> ([Send msg, ConsoleError b] @ (if responseBody err \<noteq> None then [ConsoleError c] else []), Inl err))"
  by (simp add: deliver_def io_defs split: sum.splits)

lemma queries_deliver [simp]: "queries (fst (deliver e a b c msg)) = []"
  by (simp add: deliver_cases split: sum.splits)

lemma sends_deliver [simp]: "sends (fst (deliver e a b c msg)) = [msg]"
  by (simp add: deliver_cases split: sum.splits)

lemma queries_generalError [simp]: "queries (fst (generalError a b c err)) = []"
  by (simp add: generalError_def)

lemma sends_generalError [simp]: "sends (fst (generalError a b c err)) = []"
  by (simp add: generalError_def)

text \<open>The new-provider handler, from the resolution of its recipients on.\<close>

lemma sendNewProviderEmail_resolved:
  assumes "validNewProvider req" "configured e"
    and "newProviderAdminEmails e (getProp (orEmptyObject (body req)) ''adminEmails'') = (l, Inr rs)"
    and "rs \<noteq> []"
  shows "\<exists>l'. fst (sendNewProviderEmail e req) = l @ l' \<and> queries l' = []
           \<and> list_all (\<lambda>m. msg_to m = Multiple rs) (sends l')"
  using assms
  by (auto simp: validNewProvider_def sendNewProviderEmail_def sendNewProviderEmail_try_def
      initSendGridOrFail_configured
      io_defs Let_def deliver_cases generalError_def
      split: sum.splits prod.splits)

lemma sampleEnv_simps:
  "SENDGRID_API_KEY sampleEnv = Some ''SG.key''"
  "firestoreGet sampleEnv q = Inr [JObj [(''id'', JNum ''1''), (''correo'', JStr ''a@x.com'')],
                                JObj [(''id'', JNum ''2''), (''correo'', JStr ''A@X.com'')]]"
  "readFileSync sampleEnv p = Inr ''JVBERi0xLjQK''"
  "sgSend sampleEnv m = Inr 202"
  by (simp_all add: sampleEnv_def)

lemma configured_sampleEnv: "configured sampleEnv"
  by (simp add: configured_def sampleEnv_simps)

lemma map_sum_id_Inr: "map_sum id f x = Inr y \<longleftrightarrow> (\<exists>z. x = Inr z \<and> y = f z)"
  by (cases x) auto








lemma appointmentRecipients_cases:
  "appointmentRecipients e p =
     (case firestoreGet e adminsQuery of
        Inl err \<Rightarrow>
          ([FirestoreGet adminsQuery, ConsoleError ''[sendAppointmentNotification] Error obteniendo admins:''],
           Inr (newSet (filterBoolean [p])))
      | Inr docs \<Rightarrow>
          (case adminEmailsOf docs of
             Inl err \<Rightarrow>
               ([FirestoreGet adminsQuery, ConsoleError ''[sendAppointmentNotification] Error obteniendo admins:''],
                Inr (newSet (filterBoolean [p])))
           | Inr as \<Rightarrow> ([FirestoreGet adminsQuery], Inr (newSet (filterBoolean (p # as))))))"
  by (simp add: appointmentRecipients_def io_defs split: sum.splits)



lemma sends_newProviderAdminEmails:
  "sends (fst (newProviderAdminEmails e v)) = []"
  by (cases "fromClient v"; cases "projr (fromClient v) = []")
     (auto simp: newProviderAdminEmails_throws newProviderAdminEmails_explicit
        newProviderAdminEmails_directory)

lemma sends_appointmentRecipients: "sends (fst (appointmentRecipients e p)) = []"
  by (simp add: appointmentRecipients_cases split: sum.splits)

lemma queries_appointmentRecipients: "queries (fst (appointmentRecipients e p)) = [adminsQuery]"
  by (simp add: appointmentRecipients_cases split: sum.splits)

lemma appointmentRecipients_returns: "\<exists>rs. snd (appointmentRecipients e p) = Inr rs"
  by (simp add: appointmentRecipients_cases split: sum.splits)

lemma sendNewProviderEmail_noRecipients:
  assumes "validNewProvider req" "configured e"
    and "newProviderAdminEmails e (getProp (orEmptyObject (body req)) ''adminEmails'') = (l, Inr [])"
  shows "sendNewProviderEmail e req =
     (l @ [ConsoleError ''[sendNewProviderEmail] No hay correos de administradores configurados.''],
      sendError 500 ''Los administradores no tienen correo configurado.'')"
  using assms
  by (simp add: validNewProvider_def sendNewProviderEmail_def sendNewProviderEmail_try_def
      initSendGridOrFail_configured io_defs Let_def)

lemma sendAppointmentNotification_noRecipients:
  assumes "validAppointment req" "configured e"
    and "normalizeEmail (getProp (orEmptyObject (body req)) ''providerEmail'') = Inr p"
    and "appointmentRecipients e p = (l, Inr [])"
  shows "sendAppointmentNotification e req =
     (l @ [ConsoleError ''[sendAppointmentNotification] No hay destinatarios para la cita.''],
      sendError 500 ''No se encontraron correos configurados para notificar la cita.'')"
  using assms
  by (simp add: validAppointment_def sendAppointmentNotification_def
      sendAppointmentNotification_try_def initSendGridOrFail_configured io_defs Let_def)

lemma sendAppointmentNotification_resolved:
  assumes "validAppointment req" "configured e"
    and "normalizeEmail (getProp (orEmptyObject (body req)) ''providerEmail'') = Inr p"
    and "appointmentRecipients e p = (l, Inr rs)"
    and "rs \<noteq> []"
  shows "\<exists>l'. fst (sendAppointmentNotification e req) = l @ l' \<and> queries l' = []
           \<and> list_all (\<lambda>m. msg_to m = Multiple rs) (sends l')"
  using assms
  by (auto simp: validAppointment_def sendAppointmentNotification_def
      sendAppointmentNotification_try_def initSendGridOrFail_configured
      io_defs Let_def deliver_cases generalError_def
      split: sum.splits prod.splits)

lemma template_total: "list_all (\<lambda>p. \<not> isl p) ps \<Longrightarrow> \<exists>h. template ps = Inr h"
proof (induction ps)
  case Nil
  then show ?case by simp
next
  case (Cons p ps)
  then obtain t where "template ps = Inr t" by auto
  moreover obtain s where "p = Inr s" using Cons.prems by (cases p) auto
  ultimately show ?case by simp
qed

lemma set_filterBoolean: "set (filterBoolean xs) = set xs - {[]}"
  by (auto simp: filterBoolean_def)


section \<open>Lemmas: what a template renders\<close>

lemma template_Cons_Inr:
  "template (p # ps) = Inr h \<Longrightarrow> \<exists>s t. p = Inr s \<and> template ps = Inr t \<and> h = s @ t"
  by (auto split: sum.splits)

lemma hole_here:
  assumes "template (Inr x # m # Inr y # ps) = Inr h"
  shows "\<exists>r. m = Inr r \<and> sublist (x @ r @ y) h"
proof -
  from assms obtain t1 where t1: "template (m # Inr y # ps) = Inr t1" "h = x @ t1"
    by (auto split: sum.splits)
  from t1(1) obtain r t2 where t2: "m = Inr r" "template (Inr y # ps) = Inr t2" "t1 = r @ t2"
    using template_Cons_Inr by blast
  from t2(2) obtain t3 where t3: "t2 = y @ t3"
    by (auto split: sum.splits)
  have "h = [] @ (x @ r @ y) @ t3" using t1 t2 t3 by simp
  then have "sublist (x @ r @ y) h" unfolding sublist_def by blast
  then show ?thesis using t2(1) by simp
qed

lemma hole_skip:
  assumes "template (p # ps) = Inr h"
    and "\<And>t. template ps = Inr t \<Longrightarrow> \<exists>r. m = Inr r \<and> sublist (x @ r @ y) t"
  shows "\<exists>r. m = Inr r \<and> sublist (x @ r @ y) h"
proof -
  from assms(1) obtain s t where st: "template ps = Inr t" "h = s @ t"
    using template_Cons_Inr by blast
  from assms(2) [OF st(1)] obtain r where "m = Inr r" "sublist (x @ r @ y) t" by blast
  then show ?thesis using st(2) by (auto intro: sublist_append_leftI dest: sublist_order.order_trans)
qed

lemma sublist_drop_prefix: "sublist (a @ z) h \<Longrightarrow> sublist z h"
proof -
  assume "sublist (a @ z) h"
  then obtain ps ss where "h = ps @ (a @ z) @ ss" unfolding sublist_def by blast
  then have "h = (ps @ a) @ z @ ss" by simp
  then show ?thesis unfolding sublist_def by blast
qed

lemma sublist_drop_suffix: "sublist (z @ b) h \<Longrightarrow> sublist z h"
proof -
  assume "sublist (z @ b) h"
  then obtain ps ss where "h = ps @ (z @ b) @ ss" unfolding sublist_def by blast
  then have "h = ps @ z @ (b @ ss)" by simp
  then show ?thesis unfolding sublist_def by blast
qed

lemma credentials_role:
  assumes "accessCredentialsHtmlBody u p r = Inr h"
  shows "sublist (''<li><strong>Rol:</strong> '' @ r @ ''</li>'') h"
proof -
  have "\<exists>r'. Inr r = (Inr r' :: js_error + string)
      \<and> sublist (''\<newline>        <li><strong>Rol:</strong> '' @ r' @ ''</li>'') h"
    using assms unfolding accessCredentialsHtmlBody_def
    apply -
    apply (erule hole_here | erule hole_skip)+
    done
  then have "sublist (''\<newline>        '' @ (''<li><strong>Rol:</strong> '' @ r @ ''</li>'')) h"
    by simp
  then show ?thesis by (rule sublist_drop_prefix)
qed

lemma accessCredentialsHtmlBody_total: "\<exists>h. accessCredentialsHtmlBody u p r = Inr h"
  unfolding accessCredentialsHtmlBody_def by (rule template_total) simp

lemma rolFinalOf_blank:
  "rol = JUndefined \<or> rol = JNull \<or> (\<exists>r. rol = JStr r \<and> trim r = [])
   \<Longrightarrow> rolFinalOf rol = Inr ''Usuario''"
  by (auto simp: rolFinalOf_def trimmed_def trim_def)

lemma loadIndicaciones_cases:
  "loadIndicaciones e =
     (case readFileSync e pdfPath of
        Inr pdfBase64 \<Rightarrow>
          ([ReadFileSync pdfPath],
           Inr [\<lparr>content = JStr pdfBase64, filename = JStr pdfName,
                  mimeType = ''application/pdf'', disposition = ''attachment''\<rparr>])
      | Inl err \<Rightarrow>
          ([ReadFileSync pdfPath,
            ConsoleError ''[sendCitaConfirmacion] No se pudo leer el PDF de indicaciones:''],
           Inr []))"
  by (simp add: loadIndicaciones_def io_defs split: sum.splits)

lemma map_sum_total: "\<exists>h. m = Inr h \<Longrightarrow> \<exists>h. map_sum id f m = Inr h"
  by auto


lemma text_hole:
  assumes "map_sum id trim (template ps) = Inr t"
    and "\<And>t0. template ps = Inr t0 \<Longrightarrow> \<exists>r. m = Inr r \<and> sublist (x @ r @ y) t0"
  shows "\<exists>r t0. m = Inr r \<and> sublist (x @ r @ y) t0 \<and> t = trim t0"
proof -
  from assms(1) obtain t0 where t0: "template ps = Inr t0" "t = trim t0"
    by (auto simp: map_sum_id_Inr)
  from assms(2) [OF t0(1)] t0(2) show ?thesis by blast
qed

lemma dropWhile_keeps:
  assumes "z \<noteq> []" "\<not> P (hd z)"
  shows "\<exists>ps'. dropWhile P (ps @ z @ ss) = ps' @ z @ ss"
proof (cases "list_all P ps")
  case True
  then have "dropWhile P (ps @ z @ ss) = dropWhile P (z @ ss)" by (rule dropWhile_all)
  also have "\<dots> = z @ ss" using assms by (cases z) simp_all
  finally show ?thesis by (intro exI [of _ "[]"]) simp
next
  case False
  then obtain x where "x \<in> set ps" "\<not> P x" by (auto simp: list_all_iff)
  then have "dropWhile P (ps @ z @ ss) = dropWhile P ps @ z @ ss" by simp
  then show ?thesis by blast
qed

lemma sublist_trim:
  assumes "sublist z h" "z \<noteq> []" "\<not> isWhiteSpace (hd z)" "\<not> isWhiteSpace (last z)"
  shows "sublist z (trim h)"
proof -
  from assms(1) obtain ps ss where h: "h = ps @ z @ ss" unfolding sublist_def by blast
  obtain ps' where 1: "dropWhile isWhiteSpace h = ps' @ z @ ss"
    unfolding h using dropWhile_keeps [of z isWhiteSpace ps ss] assms(2,3) by blast
  have "rev z \<noteq> []" "\<not> isWhiteSpace (hd (rev z))"
    using assms(2,4) by (simp_all add: hd_rev)
  then obtain ss' where 2: "dropWhile isWhiteSpace (rev ss @ rev z @ rev ps') = ss' @ rev z @ rev ps'"
    using dropWhile_keeps [of "rev z" isWhiteSpace "rev ss" "rev ps'"] by blast
  have "trim h = rev (dropWhile isWhiteSpace (rev ss @ rev z @ rev ps'))"
    by (simp add: trim_def 1)
  then have "trim h = ps' @ z @ rev ss'" using 2 by simp
  then show ?thesis unfolding sublist_def by blast
qed

lemma orElse_cases:
  "orElse (JBool True) d = Inr ''true''"
  "orElse (JBool False) d = Inr d"
  "orElse JUndefined d = Inr d"
  "s \<noteq> [] \<Longrightarrow> orElse (JStr s) d = Inr s"
  by (simp_all add: orElse_def)

lemma appointment_esDomingo:
  assumes "appointmentHtmlBody b p = Inr h"
  shows "sublist (''<li><strong>Es domingo:</strong> ''
            @ (if truthy (getProp (getProp b ''cita'') ''esDomingo'')
               then ''S'' @ [CHR 0xED] @ '', requiere aprobaci'' @ [CHR 0xF3] @ ''n especial''
               else ''No'')
            @ ''</li>'') h"
proof -
  have "\<exists>r. Inr (if truthy (getProp (getProp b ''cita'') ''esDomingo'')
               then ''S'' @ [CHR 0xED] @ '', requiere aprobaci'' @ [CHR 0xF3] @ ''n especial''
               else ''No'') = (Inr r :: js_error + string)
      \<and> sublist (''\<newline>        <li><strong>Es domingo:</strong> '' @ r @ ''</li>'') h"
    using assms unfolding appointmentHtmlBody_def Let_def
    apply -
    apply (erule hole_here | erule hole_skip)+
    done
  then have "sublist (''\<newline>        '' @ (''<li><strong>Es domingo:</strong> ''
      @ (if truthy (getProp (getProp b ''cita'') ''esDomingo'')
               then ''S'' @ [CHR 0xED] @ '', requiere aprobaci'' @ [CHR 0xF3] @ ''n especial''
               else ''No'') @ ''</li>'')) h"
    by auto
  then show ?thesis by (rule sublist_drop_prefix)
qed

lemma appointment_recolectaCaja:
  assumes "appointmentHtmlBody b p = Inr h"
  shows "\<exists>r. orElse (getProp (getProp b ''cita'') ''recolectaCaja'') ''No'' = Inr r
      \<and> sublist (''Recolecta caja?:</strong> '' @ r @ ''</li>'') h"
proof -
  have "\<exists>r. orElse (getProp (getProp b ''cita'') ''recolectaCaja'') ''No'' = Inr r
      \<and> sublist ((''\<newline>        <li><strong>'' @ [CHR 0xBF] @ ''Recolecta caja?:</strong> '')
           @ r @ ''</li>'') h"
    using assms unfolding appointmentHtmlBody_def Let_def
    apply -
    apply (erule hole_here | erule hole_skip)+
    done
  then obtain r where r: "orElse (getProp (getProp b ''cita'') ''recolectaCaja'') ''No'' = Inr r"
    "sublist ((''\<newline>        <li><strong>'' @ [CHR 0xBF] @ ''Recolecta caja?:</strong> '')
           @ r @ ''</li>'') h"
    by blast
  from r(2) have "sublist ((''\<newline>        <li><strong>'' @ [CHR 0xBF]) @ (''Recolecta caja?:</strong> ''
           @ r @ ''</li>'')) h"
    by simp
  then have "sublist (''Recolecta caja?:</strong> '' @ r @ ''</li>'') h"
    by (rule sublist_drop_prefix)
  then show ?thesis using r(1) by blast
qed

lemma confirmacion_html_recolectaCaja:
  assumes "citaHtmlBody folio datosCita = Inr h"
  shows "\<exists>r. orElse (getProp datosCita ''recolectaCaja'') ''-'' = Inr r
      \<and> sublist (''Recolecta caja?:</strong> '' @ r @ ''</li>'') h"
proof -
  have "\<exists>r. orElse (getProp datosCita ''recolectaCaja'') ''-'' = Inr r
      \<and> sublist ((''\<newline>        <li><strong>'' @ [CHR 0xBF] @ ''Recolecta caja?:</strong> '')
           @ r @ ''</li>'') h"
    using assms unfolding citaHtmlBody_def Let_def
    apply -
    apply (erule hole_here | erule hole_skip)+
    done
  then obtain r where r: "orElse (getProp datosCita ''recolectaCaja'') ''-'' = Inr r"
    "sublist ((''\<newline>        <li><strong>'' @ [CHR 0xBF] @ ''Recolecta caja?:</strong> '')
           @ r @ ''</li>'') h"
    by blast
  from r(2) have "sublist ((''\<newline>        <li><strong>'' @ [CHR 0xBF]) @ (''Recolecta caja?:</strong> ''
           @ r @ ''</li>'')) h"
    by simp
  then have "sublist (''Recolecta caja?:</strong> '' @ r @ ''</li>'') h"
    by (rule sublist_drop_prefix)
  then show ?thesis using r(1) by blast
qed

lemma confirmacion_text_recolectaCaja:
  assumes "citaTextBody folio datosCita = Inr t"
  shows "\<exists>r. orElse (getProp datosCita ''recolectaCaja'') ''-'' = Inr r
      \<and> sublist (''Recolecta caja?: '' @ r @ ''\<newline>- Comentarios / notas:'') t"
proof -
  have "\<exists>r t0. orElse (getProp datosCita ''recolectaCaja'') ''-'' = Inr r
      \<and> sublist ((''\<newline>- '' @ [CHR 0xBF] @ ''Recolecta caja?: '') @ r
            @ ''\<newline>- Comentarios / notas: '') t0
      \<and> t = trim t0"
    using assms unfolding citaTextBody_def Let_def
    apply -
    apply (erule text_hole)
    apply (erule hole_here | erule hole_skip)+
    done
  then obtain r t0 where r: "orElse (getProp datosCita ''recolectaCaja'') ''-'' = Inr r"
    "sublist ((''\<newline>- '' @ [CHR 0xBF] @ ''Recolecta caja?: '') @ r
            @ ''\<newline>- Comentarios / notas: '') t0" "t = trim t0"
    by blast
  let ?z = "''Recolecta caja?: '' @ r @ ''\<newline>- Comentarios / notas:''"
  from r(2) have "sublist ((''\<newline>- '' @ [CHR 0xBF]) @ (?z @ '' '')) t0"
    by simp
  then have "sublist (?z @ '' '') t0" by (rule sublist_drop_prefix)
  then have "sublist ?z t0" by (rule sublist_drop_suffix)
  then have "sublist ?z (trim t0)"
    by (rule sublist_trim) (simp_all add: isWhiteSpace_def)
  then show ?thesis using r(1,3) by blast
qed

lemma confirmacion_html_notas:
  assumes "citaHtmlBody folio datosCita = Inr h"
  shows "\<exists>r. notasWithBreaks (getProp datosCita ''notas'') = Inr r
      \<and> sublist (''<li><strong>Comentarios / notas:</strong> '' @ r @ ''</li>'') h"
proof -
  have "\<exists>r. notasWithBreaks (getProp datosCita ''notas'') = Inr r
      \<and> sublist (''\<newline>        <li><strong>Comentarios / notas:</strong> '' @ r @ ''</li>'') h"
    using assms unfolding citaHtmlBody_def Let_def
    apply -
    apply (erule hole_here | erule hole_skip)+
    done
  then obtain r where r: "notasWithBreaks (getProp datosCita ''notas'') = Inr r"
    "sublist (''\<newline>        <li><strong>Comentarios / notas:</strong> '' @ r @ ''</li>'') h"
    by blast
  from r(2) have "sublist (''\<newline>        ''
      @ (''<li><strong>Comentarios / notas:</strong> '' @ r @ ''</li>'')) h"
    by simp
  then have "sublist (''<li><strong>Comentarios / notas:</strong> '' @ r @ ''</li>'') h"
    by (rule sublist_drop_prefix)
  then show ?thesis using r(1) by blast
qed

lemma appointment_notas:
  assumes "appointmentHtmlBody b p = Inr h"
  shows "\<exists>r. notasEscaped (getProp (getProp b ''cita'') ''notas'') = Inr r
      \<and> sublist (''<p>'' @ r @ ''</p>'') h"
proof -
  have "\<exists>r. notasEscaped (getProp (getProp b ''cita'') ''notas'') = Inr r
      \<and> sublist (''\<newline>      <p>'' @ r @ ''</p>'') h"
    using assms unfolding appointmentHtmlBody_def Let_def
    apply -
    apply (erule hole_here | erule hole_skip)+
    done
  then obtain r where r: "notasEscaped (getProp (getProp b ''cita'') ''notas'') = Inr r"
    "sublist (''\<newline>      <p>'' @ r @ ''</p>'') h"
    by blast
  from r(2) have "sublist (''\<newline>      '' @ (''<p>'' @ r @ ''</p>'')) h"
    by simp
  then have "sublist (''<p>'' @ r @ ''</p>'') h"
    by (rule sublist_drop_prefix)
  then show ?thesis using r(1) by blast
qed

lemma sendAppointmentNotification_sends:
  assumes "validAppointment req" "configured e"
    and "normalizeEmail (getProp (orEmptyObject (body req)) ''providerEmail'') = Inr p"
    and "appointmentRecipients e p = (l, Inr rs)" "rs \<noteq> []"
    and "appointmentHtmlBody (orEmptyObject (body req)) p = Inr h"
  shows "map msg_html (sends (fst (sendAppointmentNotification e req))) = [h]"
proof -
  have "sends l = []"
    using sends_appointmentRecipients [of e p] assms(4) by simp
  then show ?thesis
    using assms
    by (simp add: validAppointment_def sendAppointmentNotification_def
        sendAppointmentNotification_try_def initSendGridOrFail_configured
        io_defs Let_def deliver_cases generalError_def sends_append
        split: sum.splits prod.splits)
qed

lemma sendCitaConfirmacion_sends:
  assumes "validConfirmacion req" "configured e"
    and "normalizeEmail (getProp (orEmptyObject (body req)) ''to'') = Inr toNorm"
    and "citaSubject (getProp (orEmptyObject (body req)) ''folio'') = Inr subject"
    and "citaTextBody (getProp (orEmptyObject (body req)) ''folio'')
            (getProp (orEmptyObject (body req)) ''datosCita'') = Inr textBody"
    and "citaHtmlBody (getProp (orEmptyObject (body req)) ''folio'')
            (getProp (orEmptyObject (body req)) ''datosCita'') = Inr htmlBody"
  shows "map (\<lambda>m. (msg_text m, msg_html m)) (sends (fst (sendCitaConfirmacion e req)))
           = [(Some textBody, htmlBody)]"
  using assms
  by (simp add: validConfirmacion_def sendCitaConfirmacion_def sendCitaConfirmacion_try_def
      initSendGridOrFail_configured io_defs Let_def generalError_def loadIndicaciones_cases
      deliver_cases
      split: sum.splits prod.splits)
lemma sendNewProviderEmail_throws:
  assumes "validNewProvider req" "configured e"
    and "newProviderAdminEmails e (getProp (orEmptyObject (body req)) ''adminEmails'') = (l, Inl err)"
  shows "queries (fst (sendNewProviderEmail e req)) = queries l"
  using assms
  by (simp add: validNewProvider_def sendNewProviderEmail_def sendNewProviderEmail_try_def
      initSendGridOrFail_configured io_defs Let_def generalError_def queries_append)


section \<open>Lemmas: bodies compose on scalar fields\<close>

text \<open>
  The bodies of a pre-registration and of a confirmation compose (no TypeError) whenever
  the interpolated fields are scalars and the notes are a string or absent.
\<close>

lemma scalar_ToString: "scalar v \<Longrightarrow> \<not> isl (ToString v)"
  by (cases v) (simp_all add: scalar_def)

lemma scalar_orElse: "scalar v \<Longrightarrow> \<not> isl (orElse v d)"
  by (simp add: orElse_def scalar_ToString)

lemma scalar_horaExtraSuffix: "scalar v \<Longrightarrow> \<not> isl (horaExtraSuffix v)"
  by (cases v) (simp_all add: horaExtraSuffix_def scalar_def)

lemma textOrAbsent_notasWithBreaks: "textOrAbsent v \<Longrightarrow> \<not> isl (notasWithBreaks v)"
  by (cases v) (simp_all add: notasWithBreaks_def textOrAbsent_def)

lemma textOrAbsent_notasEscaped: "textOrAbsent v \<Longrightarrow> \<not> isl (notasEscaped v)"
  by (cases v) (simp_all add: notasEscaped_def textOrAbsent_def)

lemma cita_bodies_compose:
  assumes "scalar folio" "\<forall>k. scalar (getProp datosCita k)"
    and "textOrAbsent (getProp datosCita ''notas'')"
  shows "\<exists>s t h. citaSubject folio = Inr s \<and> citaTextBody folio datosCita = Inr t
           \<and> citaHtmlBody folio datosCita = Inr h"
proof -
  have "\<exists>s. citaSubject folio = Inr s"
    unfolding citaSubject_def
    by (rule template_total) (simp add: assms scalar_ToString)
  moreover have "\<exists>t. citaTextBody folio datosCita = Inr t"
    unfolding citaTextBody_def Let_def
    by (rule map_sum_total, rule template_total)
       (simp add: assms scalar_ToString scalar_orElse scalar_horaExtraSuffix)
  moreover have "\<exists>h. citaHtmlBody folio datosCita = Inr h"
    unfolding citaHtmlBody_def Let_def
    by (rule template_total)
       (simp add: assms scalar_ToString scalar_orElse scalar_horaExtraSuffix
          textOrAbsent_notasWithBreaks)
  ultimately show ?thesis by blast
qed

lemma appointment_body_composes:
  assumes "scalar (getProp b ''providerLinea'')" "scalar (getProp b ''providerRazon'')"
    and "scalar (getProp b ''providerFrontera'')" "scalar (getProp b ''citaId'')"
    and "\<forall>k. scalar (getProp (getProp b ''cita'') k)"
    and "textOrAbsent (getProp (getProp b ''cita'') ''notas'')"
  shows "\<exists>h. appointmentHtmlBody b p = Inr h"
  unfolding appointmentHtmlBody_def Let_def
  by (rule template_total) (simp add: assms scalar_orElse textOrAbsent_notasEscaped)

section \<open>Claims\<close>

text \<open>
  C1. Recipients of the new-provider notification. When the list sent by the caller,
  normalised (trimmed, lower-cased, blanks dropped), is not empty, the resolution
  returns exactly that list with its duplicates removed and performs no effect at all:
  the directory is not queried, neither by the resolution nor by the rest of the handler,
  and whatever the handler sends goes to that list. When the list is empty after
  normalisation, or is absent (not an array), the resolution issues one query, on the
  collection \<open>UsuarioAdmin\<close> for the ids 1 and 2, and returns the normalised addresses of
  the documents found, duplicates removed (or the error of the query); the handler as
  a whole then makes exactly that one query.
\<close>

theorem newProvider_recipient_policy:
  "(fromClient v = Inr xs \<and> xs \<noteq> [] \<longrightarrow>
      newProviderAdminEmails e v = ([], Inr (newSet xs)))
   \<and> (fromClient v = Inr [] \<longrightarrow>
      newProviderAdminEmails e v =
        ([FirestoreGet (WhereIn ''UsuarioAdmin'' ''id'' [1, 2])],
         (case firestoreGet e (WhereIn ''UsuarioAdmin'' ''id'' [1, 2]) of
            Inl err \<Rightarrow> Inl err
          | Inr docs \<Rightarrow> map_sum id newSet (adminEmailsOf docs))))
   \<and> fromClient (JArr (map JStr ss)) = Inr (filterBoolean (map (\<lambda>s. toLowerCase (trim s)) ss))
   \<and> ((\<forall>vs. v \<noteq> JArr vs) \<longrightarrow> fromClient v = Inr [])
   \<and> (map correo docs = map JStr cs \<longrightarrow>
        adminEmailsOf docs = Inr (filterBoolean (map (\<lambda>s. toLowerCase (trim s)) cs)))
   \<and> (validNewProvider req \<and> configured e
        \<and> fromClient (getProp (orEmptyObject (body req)) ''adminEmails'') = Inr xs \<and> xs \<noteq> [] \<longrightarrow>
        queries (fst (sendNewProviderEmail e req)) = []
        \<and> list_all (\<lambda>m. msg_to m = Multiple (newSet xs)) (sends (fst (sendNewProviderEmail e req))))
   \<and> (validNewProvider req \<and> configured e
        \<and> fromClient (getProp (orEmptyObject (body req)) ''adminEmails'') = Inr [] \<longrightarrow>
        queries (fst (sendNewProviderEmail e req)) = [WhereIn ''UsuarioAdmin'' ''id'' [1, 2]])"
proof (intro conjI impI)
  show "fromClient (JArr (map JStr ss)) = Inr (filterBoolean (map (\<lambda>s. toLowerCase (trim s)) ss))"
    by (rule fromClient_strings)
next
  assume "fromClient v = Inr xs \<and> xs \<noteq> []"
  then show "newProviderAdminEmails e v = ([], Inr (newSet xs))"
    by (simp add: newProviderAdminEmails_explicit)
next
  assume "fromClient v = Inr []"
  then show "newProviderAdminEmails e v =
        ([FirestoreGet (WhereIn ''UsuarioAdmin'' ''id'' [1, 2])],
         (case firestoreGet e (WhereIn ''UsuarioAdmin'' ''id'' [1, 2]) of
            Inl err \<Rightarrow> Inl err
          | Inr docs \<Rightarrow> map_sum id newSet (adminEmailsOf docs)))"
    using newProviderAdminEmails_directory [of v e] by (simp add: adminsQuery_def)
next
  assume "\<forall>vs. v \<noteq> JArr vs"
  then show "fromClient v = Inr []"
    by (cases v) (simp_all add: fromClient_def)
next
  assume "map correo docs = map JStr cs"
  then show "adminEmailsOf docs = Inr (filterBoolean (map (\<lambda>s. toLowerCase (trim s)) cs))"
    by (rule adminEmailsOf_strings)
next
  assume h: "validNewProvider req \<and> configured e
        \<and> fromClient (getProp (orEmptyObject (body req)) ''adminEmails'') = Inr xs \<and> xs \<noteq> []"
  then have r: "newProviderAdminEmails e (getProp (orEmptyObject (body req)) ''adminEmails'')
      = ([], Inr (newSet xs))"
    by (simp add: newProviderAdminEmails_explicit)
  have ne: "newSet xs \<noteq> []"
    using h set_newSet [of xs] by (metis set_empty)
  from sendNewProviderEmail_resolved [OF _ _ r ne] h
  obtain l' where "fst (sendNewProviderEmail e req) = [] @ l'" "queries l' = []"
    "list_all (\<lambda>m. msg_to m = Multiple (newSet xs)) (sends l')"
    by blast
  then show "queries (fst (sendNewProviderEmail e req)) = []"
    and "list_all (\<lambda>m. msg_to m = Multiple (newSet xs)) (sends (fst (sendNewProviderEmail e req)))"
    by simp_all
next
  assume h: "validNewProvider req \<and> configured e
        \<and> fromClient (getProp (orEmptyObject (body req)) ''adminEmails'') = Inr []"
  let ?v = "getProp (orEmptyObject (body req)) ''adminEmails''"
  obtain r where r: "newProviderAdminEmails e ?v = ([FirestoreGet adminsQuery], r)"
    using h by (simp add: newProviderAdminEmails_directory)
  have "queries (fst (sendNewProviderEmail e req)) = [adminsQuery]"
  proof (cases r)
    case (Inl err)
    then show ?thesis using h r by (simp add: sendNewProviderEmail_throws)
  next
    case (Inr rs)
    show ?thesis
    proof (cases "rs = []")
      case True
      then show ?thesis
        using h r Inr sendNewProviderEmail_noRecipients [of req e "[FirestoreGet adminsQuery]"]
        by simp
    next
      case False
      then obtain l' where "fst (sendNewProviderEmail e req) = [FirestoreGet adminsQuery] @ l'"
        "queries l' = []"
        using h r Inr sendNewProviderEmail_resolved [of req e "[FirestoreGet adminsQuery]" rs]
        by auto
      then show ?thesis by simp
    qed
  qed
  then show "queries (fst (sendNewProviderEmail e req)) = [WhereIn ''UsuarioAdmin'' ''id'' [1, 2]]"
    by (simp add: adminsQuery_def)
qed

theorem newProvider_recipient_policy_witness:
  "newProviderAdminEmails sampleEnv (JArr [JStr '' Admin@X.com '', JStr '''', JStr ''admin@x.com''])
     = ([], Inr [''admin@x.com''])
   \<and> newProviderAdminEmails sampleEnv JUndefined
     = ([FirestoreGet (WhereIn ''UsuarioAdmin'' ''id'' [1, 2])], Inr [''a@x.com''])
   \<and> queries (fst (sendNewProviderEmail sampleEnv
         \<lparr>httpMethod = ''POST'', body = JObj [(''providerData'', JObj [])]\<rparr>))
       = [WhereIn ''UsuarioAdmin'' ''id'' [1, 2]]
   \<and> queries (fst (sendNewProviderEmail sampleEnv
         \<lparr>httpMethod = ''POST'',
          body = JObj [(''providerData'', JObj []), (''adminEmails'', JArr [JStr '' Admin@X.com ''])]\<rparr>)) = []
   \<and> sends (fst (sendNewProviderEmail sampleEnv
         \<lparr>httpMethod = ''POST'',
          body = JObj [(''providerData'', JObj []), (''adminEmails'', JArr [JStr '' Admin@X.com ''])]\<rparr>)) \<noteq> []
   \<and> list_all (\<lambda>m. msg_to m = Multiple [''admin@x.com''])
       (sends (fst (sendNewProviderEmail sampleEnv
         \<lparr>httpMethod = ''POST'',
          body = JObj [(''providerData'', JObj []), (''adminEmails'', JArr [JStr '' Admin@X.com ''])]\<rparr>)))"
proof -
  let ?v = "JArr (map JStr ['' Admin@X.com '', '''', ''admin@x.com''])"
  let ?req = "\<lparr>httpMethod = ''POST'',
          body = JObj [(''providerData'', JObj []), (''adminEmails'', JArr [JStr '' Admin@X.com ''])]\<rparr>"
  have f1: "fromClient ?v = Inr [''admin@x.com'', ''admin@x.com'']"
    using fromClient_strings [of "['' Admin@X.com '', '''', ''admin@x.com'']"]
    by (simp add: filterBoolean_def str_eval)
  have a: "newProviderAdminEmails sampleEnv ?v = ([], Inr [''admin@x.com''])"
    using newProvider_recipient_policy [of ?v "[''admin@x.com'', ''admin@x.com'']" sampleEnv] f1
    by (simp add: newSet_def setAdd_def)
  have f2: "fromClient JUndefined = Inr []"
    using newProvider_recipient_policy [of JUndefined] by simp
  have d: "adminEmailsOf [JObj [(''id'', JNum ''1''), (''correo'', JStr ''a@x.com'')],
                          JObj [(''id'', JNum ''2''), (''correo'', JStr ''A@X.com'')]]
             = Inr [''a@x.com'', ''a@x.com'']"
    using newProvider_recipient_policy
      [of _ _ _ _ "[JObj [(''id'', JNum ''1''), (''correo'', JStr ''a@x.com'')],
                    JObj [(''id'', JNum ''2''), (''correo'', JStr ''A@X.com'')]]"
          "[''a@x.com'', ''A@X.com'']"]
    by (simp add: correo_def filterBoolean_def str_eval)
  have b: "newProviderAdminEmails sampleEnv JUndefined
     = ([FirestoreGet (WhereIn ''UsuarioAdmin'' ''id'' [1, 2])], Inr [''a@x.com''])"
    using newProvider_recipient_policy [of JUndefined _ sampleEnv] f2
    by (simp add: sampleEnv_simps d newSet_def setAdd_def)
  have v: "validNewProvider ?req"
    by (simp add: validNewProvider_def orEmptyObject_def)
  have f3: "fromClient (getProp (orEmptyObject (body ?req)) ''adminEmails'') = Inr [''admin@x.com'']"
    using fromClient_strings [of "['' Admin@X.com '']"]
    by (simp add: orEmptyObject_def filterBoolean_def str_eval)
  have c: "queries (fst (sendNewProviderEmail sampleEnv ?req)) = []
        \<and> list_all (\<lambda>m. msg_to m = Multiple [''admin@x.com''])
            (sends (fst (sendNewProviderEmail sampleEnv ?req)))"
    using newProvider_recipient_policy [of _ "[''admin@x.com'']" sampleEnv _ _ _ ?req]
      v configured_sampleEnv f3
    by (simp add: newSet_def setAdd_def)
  have s: "sends (fst (sendNewProviderEmail sampleEnv ?req)) \<noteq> []"
  proof -
    have "\<exists>h. newProviderHtmlBody (body ?req) = Inr h"
      unfolding newProviderHtmlBody_def Let_def
      by (rule template_total) (simp add: orElse_def)
    then obtain h where h: "newProviderHtmlBody (body ?req) = Inr h" ..
    show ?thesis
      using h f3 
      by (simp add: sendNewProviderEmail_def sendNewProviderEmail_try_def
          initSendGridOrFail_configured configured_sampleEnv newProviderAdminEmails_explicit
          io_defs Let_def deliver_cases sampleEnv_simps orEmptyObject_def newSet_def setAdd_def)
  qed
  let ?req0 = "\<lparr>httpMethod = ''POST'', body = JObj [(''providerData'', JObj [])]\<rparr>"
  have v0: "validNewProvider ?req0"
    by (simp add: validNewProvider_def orEmptyObject_def)
  have f0: "fromClient (getProp (orEmptyObject (body ?req0)) ''adminEmails'') = Inr []"
    by (simp add: orEmptyObject_def fromClient_def)
  have q: "queries (fst (sendNewProviderEmail sampleEnv ?req0)) = [WhereIn ''UsuarioAdmin'' ''id'' [1, 2]]"
    using newProvider_recipient_policy [of _ _ sampleEnv _ _ _ ?req0] v0 configured_sampleEnv f0
    by simp
  show ?thesis using a b c s q by simp
qed

text \<open>
  C2. Recipients of a pre-registration. The resolution always issues exactly one
  directory query, on \<open>UsuarioAdmin\<close> for the ids 1 and 2, and never throws. When the
  query answers, the resolved list is the normalised provider address followed by the
  normalised addresses of the documents, blanks dropped and duplicates removed. When
  the query fails, the failure is logged and the resolution goes on with the provider
  address alone. For a request that has passed the checks of the handler (on a
  configured server, its provider address converting to a string), the handler runs this
  resolution first and queries nothing else, every message it sends goes to the resolved
  list, and an empty list is answered with HTTP 500 without any delivery; a failed
  query with a non-blank provider address, a body that composes and a provider that
  accepts ends in HTTP 200.
\<close>

theorem appointment_recipient_policy:
  "queries (fst (appointmentRecipients e p)) = [WhereIn ''UsuarioAdmin'' ''id'' [1, 2]]
   \<and> (\<exists>rs. snd (appointmentRecipients e p) = Inr rs)
   \<and> (firestoreGet e (WhereIn ''UsuarioAdmin'' ''id'' [1, 2]) = Inr docs \<and> adminEmailsOf docs = Inr as \<longrightarrow>
        appointmentRecipients e p =
          ([FirestoreGet (WhereIn ''UsuarioAdmin'' ''id'' [1, 2])], Inr (newSet (filterBoolean (p # as))))
        \<and> distinct (newSet (filterBoolean (p # as)))
        \<and> set (newSet (filterBoolean (p # as))) = insert p (set as) - {[]})
   \<and> (map correo docs = map JStr cs \<longrightarrow>
        adminEmailsOf docs = Inr (filterBoolean (map (\<lambda>s. toLowerCase (trim s)) cs)))
   \<and> (firestoreGet e (WhereIn ''UsuarioAdmin'' ''id'' [1, 2]) = Inl err \<longrightarrow>
        appointmentRecipients e p =
          ([FirestoreGet (WhereIn ''UsuarioAdmin'' ''id'' [1, 2]),
            ConsoleError ''[sendAppointmentNotification] Error obteniendo admins:''],
           Inr (if p = [] then [] else [p])))
   \<and> (validAppointment req \<and> configured e
        \<and> normalizeEmail (getProp (orEmptyObject (body req)) ''providerEmail'') = Inr p
        \<and> appointmentRecipients e p = (l, Inr rs) \<longrightarrow>
        queries (fst (sendAppointmentNotification e req)) = [WhereIn ''UsuarioAdmin'' ''id'' [1, 2]]
        \<and> list_all (\<lambda>m. msg_to m = Multiple rs) (sends (fst (sendAppointmentNotification e req)))
        \<and> (rs = [] \<longrightarrow>
              sends (fst (sendAppointmentNotification e req)) = []
              \<and> status (snd (sendAppointmentNotification e req)) = 500))
   \<and> (validAppointment req \<and> configured e
        \<and> normalizeEmail (getProp (orEmptyObject (body req)) ''providerEmail'') = Inr p \<and> p \<noteq> []
        \<and> firestoreGet e (WhereIn ''UsuarioAdmin'' ''id'' [1, 2]) = Inl err
        \<and> appointmentHtmlBody (orEmptyObject (body req)) p = Inr h
        \<and> sgSend e \<lparr>msg_to = Multiple [p], msg_from_email = ''logisticabmm@gmail.com'',
                     msg_from_name = ''Control de Transportes BMM'',
                     msg_subject = ''Pre-registro de cita de acceso - Control de Transportes BMM'',
                     msg_text = None, msg_html = h, msg_attachments = None\<rparr> = Inr code \<longrightarrow>
        sendAppointmentNotification e req =
          ([FirestoreGet (WhereIn ''UsuarioAdmin'' ''id'' [1, 2]),
            ConsoleError ''[sendAppointmentNotification] Error obteniendo admins:'',
            Send \<lparr>msg_to = Multiple [p], msg_from_email = ''logisticabmm@gmail.com'',
                  msg_from_name = ''Control de Transportes BMM'',
                  msg_subject = ''Pre-registro de cita de acceso - Control de Transportes BMM'',
                  msg_text = None, msg_html = h, msg_attachments = None\<rparr>,
            ConsoleLog ''[sendAppointmentNotification] Correo de cita enviado. Status:''],
           \<lparr>headers = cors, status = 200,
            payload = Json True (''Notificaci'' @ [CHR 0xF3] @ ''n de cita enviada correctamente.'') None\<rparr>))"
proof (intro conjI impI)
  show "queries (fst (appointmentRecipients e p)) = [WhereIn ''UsuarioAdmin'' ''id'' [1, 2]]"
    using queries_appointmentRecipients [of e p] by (simp add: adminsQuery_def)
  show "\<exists>rs. snd (appointmentRecipients e p) = Inr rs"
    by (rule appointmentRecipients_returns)
next
  assume "firestoreGet e (WhereIn ''UsuarioAdmin'' ''id'' [1, 2]) = Inr docs \<and> adminEmailsOf docs = Inr as"
  then show "appointmentRecipients e p =
          ([FirestoreGet (WhereIn ''UsuarioAdmin'' ''id'' [1, 2])], Inr (newSet (filterBoolean (p # as))))"
    by (simp add: appointmentRecipients_cases adminsQuery_def)
  show "distinct (newSet (filterBoolean (p # as)))"
    by (rule distinct_newSet)
  show "set (newSet (filterBoolean (p # as))) = insert p (set as) - {[]}"
    by (simp add: set_newSet set_filterBoolean)
next
  assume "map correo docs = map JStr cs"
  then show "adminEmailsOf docs = Inr (filterBoolean (map (\<lambda>s. toLowerCase (trim s)) cs))"
    by (rule adminEmailsOf_strings)
next
  assume "firestoreGet e (WhereIn ''UsuarioAdmin'' ''id'' [1, 2]) = Inl err"
  then show "appointmentRecipients e p =
          ([FirestoreGet (WhereIn ''UsuarioAdmin'' ''id'' [1, 2]),
            ConsoleError ''[sendAppointmentNotification] Error obteniendo admins:''],
           Inr (if p = [] then [] else [p]))"
    by (simp add: appointmentRecipients_cases adminsQuery_def filterBoolean_def newSet_def setAdd_def)
next
  assume h: "validAppointment req \<and> configured e
        \<and> normalizeEmail (getProp (orEmptyObject (body req)) ''providerEmail'') = Inr p
        \<and> appointmentRecipients e p = (l, Inr rs)"
  then have r: "appointmentRecipients e p = (l, Inr rs)" by simp
  have ql: "queries l = [WhereIn ''UsuarioAdmin'' ''id'' [1, 2]]" and sl: "sends l = []"
    using queries_appointmentRecipients [of e p] sends_appointmentRecipients [of e p] r
    by (simp_all add: adminsQuery_def)
  have "queries (fst (sendAppointmentNotification e req)) = [WhereIn ''UsuarioAdmin'' ''id'' [1, 2]]
      \<and> list_all (\<lambda>m. msg_to m = Multiple rs) (sends (fst (sendAppointmentNotification e req)))
      \<and> (rs = [] \<longrightarrow>
            sends (fst (sendAppointmentNotification e req)) = []
            \<and> status (snd (sendAppointmentNotification e req)) = 500)"
  proof (cases "rs = []")
    case True
    then have "sendAppointmentNotification e req =
       (l @ [ConsoleError ''[sendAppointmentNotification] No hay destinatarios para la cita.''],
        sendError 500 ''No se encontraron correos configurados para notificar la cita.'')"
      using h by (simp add: sendAppointmentNotification_noRecipients)
    then show ?thesis using ql sl
      by (simp add: sendError_def queries_append sends_append)
  next
    case False
    then obtain l' where "fst (sendAppointmentNotification e req) = l @ l'" "queries l' = []"
      "list_all (\<lambda>m. msg_to m = Multiple rs) (sends l')"
      using sendAppointmentNotification_resolved [of req e p l rs] h by blast
    then show ?thesis using ql sl False
      by (simp add: queries_append sends_append)
  qed
  note main = this
  from main
  show "queries (fst (sendAppointmentNotification e req)) = [WhereIn ''UsuarioAdmin'' ''id'' [1, 2]]"
    and "list_all (\<lambda>m. msg_to m = Multiple rs) (sends (fst (sendAppointmentNotification e req)))"
    by simp_all
  show "sends (fst (sendAppointmentNotification e req)) = []"
    and "status (snd (sendAppointmentNotification e req)) = 500"
    if "rs = []"
    using main that by simp_all
next
  assume h: "validAppointment req \<and> configured e
        \<and> normalizeEmail (getProp (orEmptyObject (body req)) ''providerEmail'') = Inr p \<and> p \<noteq> []
        \<and> firestoreGet e (WhereIn ''UsuarioAdmin'' ''id'' [1, 2]) = Inl err
        \<and> appointmentHtmlBody (orEmptyObject (body req)) p = Inr h
        \<and> sgSend e \<lparr>msg_to = Multiple [p], msg_from_email = ''logisticabmm@gmail.com'',
                     msg_from_name = ''Control de Transportes BMM'',
                     msg_subject = ''Pre-registro de cita de acceso - Control de Transportes BMM'',
                     msg_text = None, msg_html = h, msg_attachments = None\<rparr> = Inr code"
  then have r: "appointmentRecipients e p =
      ([FirestoreGet (WhereIn ''UsuarioAdmin'' ''id'' [1, 2]),
        ConsoleError ''[sendAppointmentNotification] Error obteniendo admins:''], Inr [p])"
    by (simp add: appointmentRecipients_cases adminsQuery_def filterBoolean_def newSet_def setAdd_def)
  show "sendAppointmentNotification e req =
          ([FirestoreGet (WhereIn ''UsuarioAdmin'' ''id'' [1, 2]),
            ConsoleError ''[sendAppointmentNotification] Error obteniendo admins:'',
            Send \<lparr>msg_to = Multiple [p], msg_from_email = ''logisticabmm@gmail.com'',
                  msg_from_name = ''Control de Transportes BMM'',
                  msg_subject = ''Pre-registro de cita de acceso - Control de Transportes BMM'',
                  msg_text = None, msg_html = h, msg_attachments = None\<rparr>,
            ConsoleLog ''[sendAppointmentNotification] Correo de cita enviado. Status:''],
           \<lparr>headers = cors, status = 200,
            payload = Json True (''Notificaci'' @ [CHR 0xF3] @ ''n de cita enviada correctamente.'') None\<rparr>)"
    using h r
    by (simp add: validAppointment_def sendAppointmentNotification_def
        sendAppointmentNotification_try_def initSendGridOrFail_configured
        io_defs Let_def deliver_cases fromEmail_def fromName_def sendOk_def)
qed

theorem appointment_recipient_policy_witness:
  "appointmentRecipients sampleEnv ''prov@y.com'' =
     ([FirestoreGet (WhereIn ''UsuarioAdmin'' ''id'' [1, 2])], Inr [''prov@y.com'', ''a@x.com''])
   \<and> queries (fst (sendAppointmentNotification sampleEnv
         \<lparr>httpMethod = ''POST'',
          body = JObj [(''providerEmail'', JStr '' Prov@Y.com ''),
                       (''cita'', JObj [(''fecha'', JStr ''2025-01-01''), (''hora'', JStr ''10:00'')])]\<rparr>))
       = [WhereIn ''UsuarioAdmin'' ''id'' [1, 2]]
   \<and> list_all (\<lambda>m. msg_to m = Multiple [''prov@y.com'', ''a@x.com''])
       (sends (fst (sendAppointmentNotification sampleEnv
         \<lparr>httpMethod = ''POST'',
          body = JObj [(''providerEmail'', JStr '' Prov@Y.com ''),
                       (''cita'', JObj [(''fecha'', JStr ''2025-01-01''), (''hora'', JStr ''10:00'')])]\<rparr>)))
   \<and> status (snd (sendAppointmentNotification
         (sampleEnv\<lparr>firestoreGet := \<lambda>q. Inl (Failure ''UNAVAILABLE'' None)\<rparr>)
         \<lparr>httpMethod = ''POST'',
          body = JObj [(''providerEmail'', JStr '' Prov@Y.com ''),
                       (''cita'', JObj [(''fecha'', JStr ''2025-01-01''), (''hora'', JStr ''10:00'')])]\<rparr>)) = 200
   \<and> map msg_to (sends (fst (sendAppointmentNotification
         (sampleEnv\<lparr>firestoreGet := \<lambda>q. Inl (Failure ''UNAVAILABLE'' None)\<rparr>)
         \<lparr>httpMethod = ''POST'',
          body = JObj [(''providerEmail'', JStr '' Prov@Y.com ''),
                       (''cita'', JObj [(''fecha'', JStr ''2025-01-01''), (''hora'', JStr ''10:00'')])]\<rparr>)))
       = [Multiple [''prov@y.com'']]
   \<and> appointmentRecipients (sampleEnv\<lparr>firestoreGet := \<lambda>q. Inl (Failure ''UNAVAILABLE'' None)\<rparr>)
        ''prov@y.com'' =
     ([FirestoreGet (WhereIn ''UsuarioAdmin'' ''id'' [1, 2]),
       ConsoleError ''[sendAppointmentNotification] Error obteniendo admins:''],
      Inr [''prov@y.com''])
   \<and> status (snd (sendAppointmentNotification
         (sampleEnv\<lparr>firestoreGet := \<lambda>q. Inl (Failure ''UNAVAILABLE'' None)\<rparr>)
         \<lparr>httpMethod = ''POST'',
          body = JObj [(''providerEmail'', JStr ''   ''),
                       (''cita'', JObj [(''fecha'', JStr ''2025-01-01''), (''hora'', JStr ''10:00'')])]\<rparr>)) = 500
   \<and> sends (fst (sendAppointmentNotification
         (sampleEnv\<lparr>firestoreGet := \<lambda>q. Inl (Failure ''UNAVAILABLE'' None)\<rparr>)
         \<lparr>httpMethod = ''POST'',
          body = JObj [(''providerEmail'', JStr ''   ''),
                       (''cita'', JObj [(''fecha'', JStr ''2025-01-01''), (''hora'', JStr ''10:00'')])]\<rparr>)) = []"
proof -
  let ?q = "WhereIn ''UsuarioAdmin'' ''id'' [1, 2]"
  let ?docs = "[JObj [(''id'', JNum ''1''), (''correo'', JStr ''a@x.com'')],
                JObj [(''id'', JNum ''2''), (''correo'', JStr ''A@X.com'')]]"
  let ?e2 = "sampleEnv\<lparr>firestoreGet := \<lambda>q. Inl (Failure ''UNAVAILABLE'' None)\<rparr>"
  let ?req = "\<lparr>httpMethod = ''POST'',
          body = JObj [(''providerEmail'', JStr '' Prov@Y.com ''),
                       (''cita'', JObj [(''fecha'', JStr ''2025-01-01''), (''hora'', JStr ''10:00'')])]\<rparr>"
  note pol = appointment_recipient_policy
  have d: "adminEmailsOf ?docs = Inr [''a@x.com'', ''a@x.com'']"
    using pol [of _ _ ?docs _ "[''a@x.com'', ''A@X.com'']"]
    by (simp add: correo_def filterBoolean_def str_eval)
  have a: "appointmentRecipients sampleEnv ''prov@y.com'' =
     ([FirestoreGet ?q], Inr [''prov@y.com'', ''a@x.com''])"
    using pol [of sampleEnv "''prov@y.com''" ?docs "[''a@x.com'', ''a@x.com'']"] d
    by (simp add: sampleEnv_simps filterBoolean_def newSet_def setAdd_def)
  have v: "validAppointment ?req"
    by (simp add: validAppointment_def orEmptyObject_def)
  have n: "normalizeEmail (getProp (orEmptyObject (body ?req)) ''providerEmail'') = Inr ''prov@y.com''"
    by (simp add: orEmptyObject_def normalizeEmail_def str_eval)
  have c2: "configured ?e2"
    by (simp add: configured_def sampleEnv_simps)
  have b: "queries (fst (sendAppointmentNotification sampleEnv ?req)) = [?q]"
    and c: "list_all (\<lambda>m. msg_to m = Multiple [''prov@y.com'', ''a@x.com''])
       (sends (fst (sendAppointmentNotification sampleEnv ?req)))"
    using pol [of sampleEnv "''prov@y.com''" _ _ _ _ ?req "[FirestoreGet ?q]"
        "[''prov@y.com'', ''a@x.com'']"] v n configured_sampleEnv a
    by simp_all
  have "\<exists>h. appointmentHtmlBody (orEmptyObject (body ?req)) ''prov@y.com'' = Inr h"
    unfolding appointmentHtmlBody_def Let_def
    by (rule template_total) (simp add: orElse_def notasEscaped_def orEmptyObject_def)
  then obtain h where h: "appointmentHtmlBody (orEmptyObject (body ?req)) ''prov@y.com'' = Inr h" ..
  have f: "sendAppointmentNotification ?e2 ?req =
          ([FirestoreGet ?q,
            ConsoleError ''[sendAppointmentNotification] Error obteniendo admins:'',
            Send \<lparr>msg_to = Multiple [''prov@y.com''], msg_from_email = ''logisticabmm@gmail.com'',
                  msg_from_name = ''Control de Transportes BMM'',
                  msg_subject = ''Pre-registro de cita de acceso - Control de Transportes BMM'',
                  msg_text = None, msg_html = h, msg_attachments = None\<rparr>,
            ConsoleLog ''[sendAppointmentNotification] Correo de cita enviado. Status:''],
           \<lparr>headers = cors, status = 200,
            payload = Json True (''Notificaci'' @ [CHR 0xF3] @ ''n de cita enviada correctamente.'') None\<rparr>)"
    using pol [of ?e2 "''prov@y.com''" _ _ _ "Failure ''UNAVAILABLE'' None" ?req _ _ h 202] v n c2 h
    by (simp add: sampleEnv_simps)
  have g: "appointmentRecipients ?e2 ''prov@y.com'' =
     ([FirestoreGet ?q, ConsoleError ''[sendAppointmentNotification] Error obteniendo admins:''],
      Inr [''prov@y.com''])"
    using pol [of ?e2 "''prov@y.com''" _ _ _ "Failure ''UNAVAILABLE'' None"] by simp
  let ?blank = "\<lparr>httpMethod = ''POST'',
          body = JObj [(''providerEmail'', JStr ''   ''),
                       (''cita'', JObj [(''fecha'', JStr ''2025-01-01''), (''hora'', JStr ''10:00'')])]\<rparr>"
  have vb: "validAppointment ?blank"
    by (simp add: validAppointment_def orEmptyObject_def)
  have nb: "normalizeEmail (getProp (orEmptyObject (body ?blank)) ''providerEmail'') = Inr []"
    by (simp add: orEmptyObject_def normalizeEmail_def str_eval)
  have gb: "appointmentRecipients ?e2 [] =
     ([FirestoreGet ?q, ConsoleError ''[sendAppointmentNotification] Error obteniendo admins:''],
      Inr [])"
    using pol [of ?e2 "[]" _ _ _ "Failure ''UNAVAILABLE'' None"] by simp
  have k: "status (snd (sendAppointmentNotification ?e2 ?blank)) = 500
      \<and> sends (fst (sendAppointmentNotification ?e2 ?blank)) = []"
    using pol [of ?e2 "[]" _ _ _ _ ?blank
        "[FirestoreGet ?q, ConsoleError ''[sendAppointmentNotification] Error obteniendo admins:'']"
        "[]"] vb nb c2 gb
    by simp
  show ?thesis
    using a b c f g k by simp
qed



text \<open>
  C4. Free text in the HTML bodies. The claim asks that the notes of a pre-registration
  and of a confirmation reach the HTML body with every \<open><\<close> replaced by \<open>&lt;\<close> and every
  newline replaced by a line break. The code does one half in each handler: the
  pre-registration replaces \<open><\<close> and keeps newlines, the confirmation replaces newlines
  and keeps \<open><\<close>. The theorem runs both handlers where they fall short: the message
  sent for the confirmation of folio \<open>F-100\<close> with the notes \<open><script>\<close> carries
  \<open><script>\<close> as it came, and the message sent for a pre-registration with the notes
  \<open>uno\<close>, newline, \<open>dos\<close> carries the newline as it came.
\<close>

theorem notas_rendering_at_failing_inputs:
  "map (\<lambda>m. sublist ''<li><strong>Comentarios / notas:</strong> <script></li>'' (msg_html m))
     (sends (fst (sendCitaConfirmacion sampleEnv
        \<lparr>httpMethod = ''POST'',
         body = JObj [(''to'', JStr ''a@x.com''), (''folio'', JStr ''F-100''),
                      (''datosCita'', JObj [(''notas'', JStr ''<script>'')])]\<rparr>))) = [True]
   \<and> map (\<lambda>m. sublist (''<p>uno'' @ [CHR 0x0A] @ ''dos</p>'') (msg_html m))
     (sends (fst (sendAppointmentNotification sampleEnv
        \<lparr>httpMethod = ''POST'',
         body = JObj [(''providerEmail'', JStr ''p@x.com''),
                      (''cita'', JObj [(''fecha'', JStr ''2025-01-01''), (''hora'', JStr ''10:00''),
                                       (''notas'', JStr (''uno'' @ [CHR 0x0A] @ ''dos''))])]\<rparr>))) = [True]"
proof -
  let ?folio = "JStr ''F-100''"
  let ?datos = "JObj [(''notas'', JStr ''<script>'')]"
  let ?r1 = "\<lparr>httpMethod = ''POST'',
         body = JObj [(''to'', JStr ''a@x.com''), (''folio'', ?folio), (''datosCita'', ?datos)]\<rparr>"
  let ?b = "JObj [(''providerEmail'', JStr ''p@x.com''),
                      (''cita'', JObj [(''fecha'', JStr ''2025-01-01''), (''hora'', JStr ''10:00''),
                                       (''notas'', JStr (''uno'' @ [CHR 0x0A] @ ''dos''))])]"
  let ?r2 = "\<lparr>httpMethod = ''POST'', body = ?b\<rparr>"
  have v1: "validConfirmacion ?r1"
    by (simp add: validConfirmacion_def orEmptyObject_def)
  have n1: "normalizeEmail (getProp (orEmptyObject (body ?r1)) ''to'') = Inr ''a@x.com''"
    by (simp add: orEmptyObject_def normalizeEmail_JStr str_eval)
  have "\<exists>s. citaSubject ?folio = Inr s"
    unfolding citaSubject_def by (rule template_total) simp
  then obtain s where s: "citaSubject (getProp (orEmptyObject (body ?r1)) ''folio'') = Inr s"
    by (auto simp: orEmptyObject_def)
  have "\<exists>t. citaTextBody ?folio ?datos = Inr t"
    unfolding citaTextBody_def Let_def
    by (rule map_sum_total, rule template_total) (simp add: orElse_def horaExtraSuffix_def)
  then obtain t where t: "citaTextBody (getProp (orEmptyObject (body ?r1)) ''folio'')
      (getProp (orEmptyObject (body ?r1)) ''datosCita'') = Inr t"
    by (auto simp: orEmptyObject_def)
  have "\<exists>h. citaHtmlBody ?folio ?datos = Inr h"
    unfolding citaHtmlBody_def Let_def
    by (rule template_total)
       (simp add: orElse_def horaExtraSuffix_def notasWithBreaks_def replace_newline_def)
  then obtain h where h0: "citaHtmlBody ?folio ?datos = Inr h" ..
  then have h: "citaHtmlBody (getProp (orEmptyObject (body ?r1)) ''folio'')
      (getProp (orEmptyObject (body ?r1)) ''datosCita'') = Inr h"
    by (simp add: orEmptyObject_def)
  have 1: "sublist ''<li><strong>Comentarios / notas:</strong> <script></li>'' h"
    using confirmacion_html_notas [OF h0]
    by (simp add: notasWithBreaks_def replace_newline_def)
  have a: "map (\<lambda>m. (msg_text m, msg_html m)) (sends (fst (sendCitaConfirmacion sampleEnv ?r1)))
      = [(Some t, h)]"
    using v1 configured_sampleEnv n1 s t h by (rule sendCitaConfirmacion_sends)
  have v2: "validAppointment ?r2"
    by (simp add: validAppointment_def orEmptyObject_def)
  have n2: "normalizeEmail (getProp (orEmptyObject (body ?r2)) ''providerEmail'') = Inr ''p@x.com''"
    by (simp add: orEmptyObject_def normalizeEmail_JStr str_eval)
  have r2: "appointmentRecipients sampleEnv ''p@x.com'' =
      ([FirestoreGet adminsQuery], Inr [''p@x.com'', ''a@x.com''])"
    by (simp add: appointmentRecipients_cases sampleEnv_simps adminEmailsOf_def correo_def
        filterBoolean_def newSet_def setAdd_def normalizeEmail_def str_eval)
  have "\<exists>h. appointmentHtmlBody ?b ''p@x.com'' = Inr h"
    unfolding appointmentHtmlBody_def Let_def
    by (rule template_total) (simp add: orElse_def notasEscaped_def replace_lt_def)
  then obtain h' where h0': "appointmentHtmlBody ?b ''p@x.com'' = Inr h'" ..
  then have h': "appointmentHtmlBody (orEmptyObject (body ?r2)) ''p@x.com'' = Inr h'"
    by (simp add: orEmptyObject_def)
  have 2: "sublist (''<p>uno'' @ [CHR 0x0A] @ ''dos</p>'') h'"
    using appointment_notas [OF h0']
    by (simp add: notasEscaped_def replace_lt_def)
  have b: "map msg_html (sends (fst (sendAppointmentNotification sampleEnv ?r2))) = [h']"
    using v2 configured_sampleEnv n2 r2 _ h' by (rule sendAppointmentNotification_sends) simp
  have "map (\<lambda>m. sublist ''<li><strong>Comentarios / notas:</strong> <script></li>'' (msg_html m))
     (sends (fst (sendCitaConfirmacion sampleEnv ?r1))) = [True]"
    using a 1 by (auto simp: map_eq_Cons_conv)
  moreover have "map (\<lambda>m. sublist (''<p>uno'' @ [CHR 0x0A] @ ''dos</p>'') (msg_html m))
     (sends (fst (sendAppointmentNotification sampleEnv ?r2))) = [True]"
    using b 2 by (auto simp: map_eq_Cons_conv)
  ultimately show ?thesis by simp
qed

text \<open>
  C5. The PDF of the confirmation. When a confirmation request has passed the checks of
  the handler, on a configured server, its address and its bodies compose, and the read
  of the PDF fails, the handler still hands exactly one message to SendGrid, without
  attachments; the failure of the read is logged and nothing else. If the provider
  accepts the message, the answer is HTTP 200 with \<open>success = true\<close>; if it rejects it,
  the error reported to the caller is the provider's, never the one of the read.
\<close>

theorem pdf_failure_degrades:
  "(validConfirmacion req \<and> configured e
      \<and> normalizeEmail (getProp (orEmptyObject (body req)) ''to'') = Inr toNorm
      \<and> citaSubject (getProp (orEmptyObject (body req)) ''folio'') = Inr subject
      \<and> citaTextBody (getProp (orEmptyObject (body req)) ''folio'')
            (getProp (orEmptyObject (body req)) ''datosCita'') = Inr textBody
      \<and> citaHtmlBody (getProp (orEmptyObject (body req)) ''folio'')
            (getProp (orEmptyObject (body req)) ''datosCita'') = Inr htmlBody
      \<and> readFileSync e ''docs/Indicaciones de ingreso a transportistas.pdf'' = Inl err \<longrightarrow>
      sends (fst (sendCitaConfirmacion e req)) =
        [\<lparr>msg_to = Single toNorm, msg_from_email = ''logisticabmm@gmail.com'',
          msg_from_name = ''Control de Transportes BMM'', msg_subject = subject,
          msg_text = Some textBody, msg_html = htmlBody, msg_attachments = None\<rparr>]
      \<and> (\<forall>code.
            sgSend e \<lparr>msg_to = Single toNorm, msg_from_email = ''logisticabmm@gmail.com'',
                     msg_from_name = ''Control de Transportes BMM'', msg_subject = subject,
                     msg_text = Some textBody, msg_html = htmlBody, msg_attachments = None\<rparr>
              = Inr code \<longrightarrow>
            sendCitaConfirmacion e req =
              ([ReadFileSync ''docs/Indicaciones de ingreso a transportistas.pdf'',
                ConsoleError ''[sendCitaConfirmacion] No se pudo leer el PDF de indicaciones:'',
                Send \<lparr>msg_to = Single toNorm, msg_from_email = ''logisticabmm@gmail.com'',
                      msg_from_name = ''Control de Transportes BMM'', msg_subject = subject,
                      msg_text = Some textBody, msg_html = htmlBody, msg_attachments = None\<rparr>,
                ConsoleLog (''[sendCitaConfirmacion] Correo de confirmaci'' @ [CHR 0xF3]
                              @ ''n enviado. Status:'')],
               \<lparr>headers = cors, status = 200,
                payload = Json True (''Correo de confirmaci'' @ [CHR 0xF3]
                              @ ''n de cita enviado correctamente.'') None\<rparr>))
      \<and> (\<forall>sgError.
            sgSend e \<lparr>msg_to = Single toNorm, msg_from_email = ''logisticabmm@gmail.com'',
                     msg_from_name = ''Control de Transportes BMM'', msg_subject = subject,
                     msg_text = Some textBody, msg_html = htmlBody, msg_attachments = None\<rparr>
              = Inl sgError \<longrightarrow>
            payload (snd (sendCitaConfirmacion e req)) =
              Json False (''Ocurri'' @ [CHR 0xF3] @ '' un error al enviar la confirmaci''
                            @ [CHR 0xF3] @ ''n de cita.'') (Some sgError)))"
proof (intro conjI impI allI)
  assume h: "validConfirmacion req \<and> configured e
      \<and> normalizeEmail (getProp (orEmptyObject (body req)) ''to'') = Inr toNorm
      \<and> citaSubject (getProp (orEmptyObject (body req)) ''folio'') = Inr subject
      \<and> citaTextBody (getProp (orEmptyObject (body req)) ''folio'')
            (getProp (orEmptyObject (body req)) ''datosCita'') = Inr textBody
      \<and> citaHtmlBody (getProp (orEmptyObject (body req)) ''folio'')
            (getProp (orEmptyObject (body req)) ''datosCita'') = Inr htmlBody
      \<and> readFileSync e ''docs/Indicaciones de ingreso a transportistas.pdf'' = Inl err"
  let ?m = "\<lparr>msg_to = Single toNorm, msg_from_email = ''logisticabmm@gmail.com'',
          msg_from_name = ''Control de Transportes BMM'', msg_subject = subject,
          msg_text = Some textBody, msg_html = htmlBody, msg_attachments = None\<rparr>"
  have l: "loadIndicaciones e =
      ([ReadFileSync pdfPath,
        ConsoleError ''[sendCitaConfirmacion] No se pudo leer el PDF de indicaciones:''], Inr [])"
    using h by (simp add: loadIndicaciones_cases pdfPath_def pdfName_def)
  have r: "sendCitaConfirmacion e req =
      (case deliver e (''[sendCitaConfirmacion] Correo de confirmaci'' @ [CHR 0xF3] @ ''n enviado. Status:'')
              ''[sendCitaConfirmacion] Error SendGrid:''
              ''[sendCitaConfirmacion] Detalle SendGrid:'' ?m of
         (l', Inr u) \<Rightarrow>
           ([ReadFileSync pdfPath,
             ConsoleError ''[sendCitaConfirmacion] No se pudo leer el PDF de indicaciones:''] @ l',
            sendOk (''Correo de confirmaci'' @ [CHR 0xF3] @ ''n de cita enviado correctamente.''))
       | (l', Inl x) \<Rightarrow>
           ([ReadFileSync pdfPath,
             ConsoleError ''[sendCitaConfirmacion] No se pudo leer el PDF de indicaciones:''] @ l'
              @ fst (generalError ''[sendCitaConfirmacion] Error general:''
                       ''[sendCitaConfirmacion] Detalle SendGrid:''
                       (''Ocurri'' @ [CHR 0xF3] @ '' un error al enviar la confirmaci''
                            @ [CHR 0xF3] @ ''n de cita.'') x),
            sendFailure (''Ocurri'' @ [CHR 0xF3] @ '' un error al enviar la confirmaci''
                            @ [CHR 0xF3] @ ''n de cita.'') x))"
    using h l
    by (simp add: validConfirmacion_def sendCitaConfirmacion_def sendCitaConfirmacion_try_def
        initSendGridOrFail_configured io_defs Let_def fromEmail_def fromName_def generalError_def
        split: sum.splits prod.splits)
  show "sends (fst (sendCitaConfirmacion e req)) = [?m]"
    unfolding r by (simp add: deliver_cases generalError_def split: sum.splits)
  show "sendCitaConfirmacion e req =
              ([ReadFileSync ''docs/Indicaciones de ingreso a transportistas.pdf'',
                ConsoleError ''[sendCitaConfirmacion] No se pudo leer el PDF de indicaciones:'',
                Send ?m,
                ConsoleLog (''[sendCitaConfirmacion] Correo de confirmaci'' @ [CHR 0xF3]
                              @ ''n enviado. Status:'')],
               \<lparr>headers = cors, status = 200,
                payload = Json True (''Correo de confirmaci'' @ [CHR 0xF3]
                              @ ''n de cita enviado correctamente.'') None\<rparr>)"
    if "sgSend e ?m = Inr code" for code
    unfolding r using that by (simp add: deliver_cases sendOk_def pdfPath_def pdfName_def)
  show "payload (snd (sendCitaConfirmacion e req)) =
              Json False (''Ocurri'' @ [CHR 0xF3] @ '' un error al enviar la confirmaci''
                            @ [CHR 0xF3] @ ''n de cita.'') (Some sgError)"
    if "sgSend e ?m = Inl sgError" for sgError
    unfolding r using that by (simp add: deliver_cases sendFailure_def)
qed

theorem pdf_failure_degrades_witness:
  "map msg_attachments (sends (fst (sendCitaConfirmacion
       (sampleEnv\<lparr>readFileSync := \<lambda>p. Inl (Failure ''ENOENT'' None)\<rparr>)
       \<lparr>httpMethod = ''POST'',
        body = JObj [(''to'', JStr ''Chofer@X.com''), (''folio'', JStr ''F-100''),
                     (''datosCita'', JObj [(''fecha'', JStr ''2025-01-01'')])]\<rparr>))) = [None]
   \<and> take 2 (fst (sendCitaConfirmacion
       (sampleEnv\<lparr>readFileSync := \<lambda>p. Inl (Failure ''ENOENT'' None)\<rparr>)
       \<lparr>httpMethod = ''POST'',
        body = JObj [(''to'', JStr ''Chofer@X.com''), (''folio'', JStr ''F-100''),
                     (''datosCita'', JObj [(''fecha'', JStr ''2025-01-01'')])]\<rparr>))
       = [ReadFileSync ''docs/Indicaciones de ingreso a transportistas.pdf'',
          ConsoleError ''[sendCitaConfirmacion] No se pudo leer el PDF de indicaciones:'']
   \<and> snd (sendCitaConfirmacion
       (sampleEnv\<lparr>readFileSync := \<lambda>p. Inl (Failure ''ENOENT'' None)\<rparr>)
       \<lparr>httpMethod = ''POST'',
        body = JObj [(''to'', JStr ''Chofer@X.com''), (''folio'', JStr ''F-100''),
                     (''datosCita'', JObj [(''fecha'', JStr ''2025-01-01'')])]\<rparr>)
       = \<lparr>headers = cors, status = 200,
          payload = Json True (''Correo de confirmaci'' @ [CHR 0xF3]
                        @ ''n de cita enviado correctamente.'') None\<rparr>
   \<and> payload (snd (sendCitaConfirmacion
       (sampleEnv\<lparr>readFileSync := \<lambda>p. Inl (Failure ''ENOENT'' None),
                   sgSend := \<lambda>m. Inl (Failure ''Forbidden'' None)\<rparr>)
       \<lparr>httpMethod = ''POST'',
        body = JObj [(''to'', JStr ''Chofer@X.com''), (''folio'', JStr ''F-100''),
                     (''datosCita'', JObj [(''fecha'', JStr ''2025-01-01'')])]\<rparr>))
       = Json False (''Ocurri'' @ [CHR 0xF3] @ '' un error al enviar la confirmaci''
                            @ [CHR 0xF3] @ ''n de cita.'') (Some (Failure ''Forbidden'' None))"
proof -
  let ?e = "sampleEnv\<lparr>readFileSync := \<lambda>p. Inl (Failure ''ENOENT'' None)\<rparr>"
  let ?e' = "sampleEnv\<lparr>readFileSync := \<lambda>p. Inl (Failure ''ENOENT'' None),
                   sgSend := \<lambda>m. Inl (Failure ''Forbidden'' None)\<rparr>"
  let ?folio = "JStr ''F-100''"
  let ?datos = "JObj [(''fecha'', JStr ''2025-01-01'')]"
  let ?req = "\<lparr>httpMethod = ''POST'',
        body = JObj [(''to'', JStr ''Chofer@X.com''), (''folio'', ?folio), (''datosCita'', ?datos)]\<rparr>"
  note deg = pdf_failure_degrades
  have v: "validConfirmacion ?req"
    by (simp add: validConfirmacion_def orEmptyObject_def)
  have c: "configured ?e" "configured ?e'"
    by (simp_all add: configured_def sampleEnv_simps)
  have n: "normalizeEmail (getProp (orEmptyObject (body ?req)) ''to'') = Inr ''chofer@x.com''"
    by (simp add: orEmptyObject_def normalizeEmail_JStr str_eval)
  have "\<exists>s. citaSubject ?folio = Inr s"
    unfolding citaSubject_def by (rule template_total) simp
  then obtain s where s: "citaSubject (getProp (orEmptyObject (body ?req)) ''folio'') = Inr s"
    by (auto simp: orEmptyObject_def)
  have "\<exists>t. citaTextBody ?folio ?datos = Inr t"
    unfolding citaTextBody_def Let_def
    by (rule map_sum_total, rule template_total) (simp add: orElse_def horaExtraSuffix_def)
  then obtain t where t: "citaTextBody (getProp (orEmptyObject (body ?req)) ''folio'')
      (getProp (orEmptyObject (body ?req)) ''datosCita'') = Inr t"
    by (auto simp: orEmptyObject_def)
  have "\<exists>h. citaHtmlBody ?folio ?datos = Inr h"
    unfolding citaHtmlBody_def Let_def
    by (rule template_total) (simp add: orElse_def horaExtraSuffix_def notasWithBreaks_def)
  then obtain h where h: "citaHtmlBody (getProp (orEmptyObject (body ?req)) ''folio'')
      (getProp (orEmptyObject (body ?req)) ''datosCita'') = Inr h"
    by (auto simp: orEmptyObject_def)
  have r: "readFileSync ?e ''docs/Indicaciones de ingreso a transportistas.pdf''
      = Inl (Failure ''ENOENT'' None)"
    "readFileSync ?e' ''docs/Indicaciones de ingreso a transportistas.pdf''
      = Inl (Failure ''ENOENT'' None)"
    by simp_all
  have a: "sgSend ?e m = Inr 202" "sgSend ?e' m = Inl (Failure ''Forbidden'' None)" for m
    by (simp_all add: sampleEnv_simps)
  from deg [of ?req ?e "''chofer@x.com''" s t h "Failure ''ENOENT'' None",
      THEN mp, OF conjI [OF v conjI [OF c(1) conjI [OF n conjI [OF s conjI [OF t conjI [OF h r(1)]]]]]]]
  have 1: "map msg_attachments (sends (fst (sendCitaConfirmacion ?e ?req))) = [None]"
    and 2: "take 2 (fst (sendCitaConfirmacion ?e ?req))
       = [ReadFileSync ''docs/Indicaciones de ingreso a transportistas.pdf'',
          ConsoleError ''[sendCitaConfirmacion] No se pudo leer el PDF de indicaciones:'']"
    and 3: "snd (sendCitaConfirmacion ?e ?req)
       = \<lparr>headers = cors, status = 200,
          payload = Json True (''Correo de confirmaci'' @ [CHR 0xF3]
                        @ ''n de cita enviado correctamente.'') None\<rparr>"
    using a(1) by simp_all
  from deg [of ?req ?e' "''chofer@x.com''" s t h "Failure ''ENOENT'' None",
      THEN mp, OF conjI [OF v conjI [OF c(2) conjI [OF n conjI [OF s conjI [OF t conjI [OF h r(2)]]]]]]]
  have 4: "payload (snd (sendCitaConfirmacion ?e' ?req))
       = Json False (''Ocurri'' @ [CHR 0xF3] @ '' un error al enviar la confirmaci''
                            @ [CHR 0xF3] @ ''n de cita.'') (Some (Failure ''Forbidden'' None))"
    using a(2) by simp
  show ?thesis using 1 2 3 4 by simp
qed

text \<open>
  C6. No recipients. When a new-provider or a pre-registration request has passed the
  checks of its handler, on a configured server, and the resolution of its recipients
  ends with the empty list, the handler logs the condition and answers HTTP 500 with
  \<open>success = false\<close> and a message about the missing addresses (not a 400), and no message
  is handed to SendGrid.
\<close>

theorem noRecipients_is_500:
  "(validNewProvider req \<and> configured e
      \<and> newProviderAdminEmails e (getProp (orEmptyObject (body req)) ''adminEmails'') = (l, Inr []) \<longrightarrow>
      sendNewProviderEmail e req =
        (l @ [ConsoleError ''[sendNewProviderEmail] No hay correos de administradores configurados.''],
         \<lparr>headers = cors, status = 500,
          payload = Json False ''Los administradores no tienen correo configurado.'' None\<rparr>)
      \<and> sends (fst (sendNewProviderEmail e req)) = [])
   \<and> (validAppointment req \<and> configured e
      \<and> normalizeEmail (getProp (orEmptyObject (body req)) ''providerEmail'') = Inr p
      \<and> appointmentRecipients e p = (l, Inr []) \<longrightarrow>
      sendAppointmentNotification e req =
        (l @ [ConsoleError ''[sendAppointmentNotification] No hay destinatarios para la cita.''],
         \<lparr>headers = cors, status = 500,
          payload = Json False ''No se encontraron correos configurados para notificar la cita.'' None\<rparr>)
      \<and> sends (fst (sendAppointmentNotification e req)) = [])"
proof (intro conjI impI)
  assume h: "validNewProvider req \<and> configured e
      \<and> newProviderAdminEmails e (getProp (orEmptyObject (body req)) ''adminEmails'') = (l, Inr [])"
  then have r: "sendNewProviderEmail e req =
     (l @ [ConsoleError ''[sendNewProviderEmail] No hay correos de administradores configurados.''],
      sendError 500 ''Los administradores no tienen correo configurado.'')"
    by (simp add: sendNewProviderEmail_noRecipients)
  then show "sendNewProviderEmail e req =
        (l @ [ConsoleError ''[sendNewProviderEmail] No hay correos de administradores configurados.''],
         \<lparr>headers = cors, status = 500,
          payload = Json False ''Los administradores no tienen correo configurado.'' None\<rparr>)"
    by (simp add: sendError_def)
  have "sends l = []"
    using h sends_newProviderAdminEmails [of e "getProp (orEmptyObject (body req)) ''adminEmails''"]
    by simp
  then show "sends (fst (sendNewProviderEmail e req)) = []"
    by (simp add: r sends_append)
next
  assume h: "validAppointment req \<and> configured e
      \<and> normalizeEmail (getProp (orEmptyObject (body req)) ''providerEmail'') = Inr p
      \<and> appointmentRecipients e p = (l, Inr [])"
  then have r: "sendAppointmentNotification e req =
     (l @ [ConsoleError ''[sendAppointmentNotification] No hay destinatarios para la cita.''],
      sendError 500 ''No se encontraron correos configurados para notificar la cita.'')"
    by (simp add: sendAppointmentNotification_noRecipients)
  then show "sendAppointmentNotification e req =
        (l @ [ConsoleError ''[sendAppointmentNotification] No hay destinatarios para la cita.''],
         \<lparr>headers = cors, status = 500,
          payload = Json False ''No se encontraron correos configurados para notificar la cita.'' None\<rparr>)"
    by (simp add: sendError_def)
  have "sends l = []"
    using h sends_appointmentRecipients [of e p] by simp
  then show "sends (fst (sendAppointmentNotification e req)) = []"
    by (simp add: r sends_append)
qed

theorem noRecipients_is_500_witness:
  "sendNewProviderEmail (sampleEnv\<lparr>firestoreGet := \<lambda>q. Inr []\<rparr>)
      \<lparr>httpMethod = ''POST'', body = JObj [(''providerData'', JObj [(''linea'', JStr ''L'')])]\<rparr> =
     ([FirestoreGet (WhereIn ''UsuarioAdmin'' ''id'' [1, 2]),
       ConsoleError ''[sendNewProviderEmail] No hay correos de administradores configurados.''],
      \<lparr>headers = cors, status = 500,
       payload = Json False ''Los administradores no tienen correo configurado.'' None\<rparr>)
   \<and> sendAppointmentNotification (sampleEnv\<lparr>firestoreGet := \<lambda>q. Inr []\<rparr>)
      \<lparr>httpMethod = ''POST'',
       body = JObj [(''providerEmail'', JStr ''   ''),
                    (''cita'', JObj [(''fecha'', JStr ''2025-01-01''), (''hora'', JStr ''10:00'')])]\<rparr> =
     ([FirestoreGet (WhereIn ''UsuarioAdmin'' ''id'' [1, 2]),
       ConsoleError ''[sendAppointmentNotification] No hay destinatarios para la cita.''],
      \<lparr>headers = cors, status = 500,
       payload = Json False ''No se encontraron correos configurados para notificar la cita.'' None\<rparr>)"
proof -
  let ?e = "sampleEnv\<lparr>firestoreGet := \<lambda>q. Inr []\<rparr>"
  let ?r1 = "\<lparr>httpMethod = ''POST'', body = JObj [(''providerData'', JObj [(''linea'', JStr ''L'')])]\<rparr>"
  let ?r2 = "\<lparr>httpMethod = ''POST'',
       body = JObj [(''providerEmail'', JStr ''   ''),
                    (''cita'', JObj [(''fecha'', JStr ''2025-01-01''), (''hora'', JStr ''10:00'')])]\<rparr>"
  have c: "configured ?e"
    by (simp add: configured_def sampleEnv_simps)
  have v1: "validNewProvider ?r1"
    by (simp add: validNewProvider_def orEmptyObject_def)
  have a1: "newProviderAdminEmails ?e (getProp (orEmptyObject (body ?r1)) ''adminEmails'')
      = ([FirestoreGet (WhereIn ''UsuarioAdmin'' ''id'' [1, 2])], Inr [])"
    by (simp add: orEmptyObject_def newProviderAdminEmails_directory fromClient_def
        adminEmailsOf_def filterBoolean_def newSet_def adminsQuery_def)
  have v2: "validAppointment ?r2"
    by (simp add: validAppointment_def orEmptyObject_def)
  have n2: "normalizeEmail (getProp (orEmptyObject (body ?r2)) ''providerEmail'') = Inr []"
    by (simp add: orEmptyObject_def normalizeEmail_def str_eval)
  have a2: "appointmentRecipients ?e [] = ([FirestoreGet (WhereIn ''UsuarioAdmin'' ''id'' [1, 2])], Inr [])"
    by (simp add: appointmentRecipients_cases adminEmailsOf_def filterBoolean_def newSet_def
        adminsQuery_def)
  show ?thesis
    using noRecipients_is_500 [of ?r1 ?e "[FirestoreGet (WhereIn ''UsuarioAdmin'' ''id'' [1, 2])]"]
      noRecipients_is_500 [of ?r2 ?e "[FirestoreGet (WhereIn ''UsuarioAdmin'' ''id'' [1, 2])]" "[]"]
      c v1 a1 v2 n2 a2
    by simp
qed

text \<open>
  C7. The access-credentials flow. The body of the message composes for every triple of
  strings. When the request is a POST on a configured server, \<open>to\<close> is a string that is
  not blank, \<open>usuario\<close> and \<open>contrasena\<close> are strings that are not blank, and the role is
  absent (\<open>undefined\<close> or \<open>null\<close>) or a string that is blank after trimming, then the role
  becomes the fallback \<open>Usuario\<close> and is rendered so in the body, the one recipient is
  the trimmed, lower-cased \<open>to\<close>, and on provider acceptance the answer is HTTP 200 with
  \<open>success = true\<close> and the message \<open>Correo de credenciales enviado correctamente.\<close>
  The witness is the scenario of the specification: \<open>to = "  User@X.com "\<close>,
  \<open>usuario = "jdoe"\<close>, \<open>contrasena = "p@ss1"\<close>, \<open>rol = ""\<close>.
\<close>

theorem accessCredentials_role_fallback:
  "(\<exists>h. accessCredentialsHtmlBody uf pf rf = Inr h)
   \<and> (httpMethod req = ''POST'' \<and> configured e
      \<and> getProp (orEmptyObject (body req)) ''to'' = JStr t \<and> toLowerCase (trim t) \<noteq> []
      \<and> getProp (orEmptyObject (body req)) ''usuario'' = JStr u \<and> trim u \<noteq> []
      \<and> getProp (orEmptyObject (body req)) ''contrasena'' = JStr c \<and> trim c \<noteq> []
      \<and> (getProp (orEmptyObject (body req)) ''rol'' = JUndefined
          \<or> getProp (orEmptyObject (body req)) ''rol'' = JNull
          \<or> (\<exists>r. getProp (orEmptyObject (body req)) ''rol'' = JStr r \<and> trim r = []))
      \<and> accessCredentialsHtmlBody (trim u) (trim c) ''Usuario'' = Inr h
      \<and> sgSend e \<lparr>msg_to = Single (toLowerCase (trim t)),
                   msg_from_email = ''logisticabmm@gmail.com'',
                   msg_from_name = ''Control de Transportes BMM'',
                   msg_subject = ''Credenciales de acceso - Control de Transportes BMM'',
                   msg_text = None, msg_html = h, msg_attachments = None\<rparr> = Inr code \<longrightarrow>
      rolFinalOf (getProp (orEmptyObject (body req)) ''rol'') = Inr ''Usuario''
      \<and> sublist ''<li><strong>Rol:</strong> Usuario</li>'' h
      \<and> sendAccessCredentials e req =
          ([ConsoleLog ''[sendAccessCredentials] Body recibido:'',
            Send \<lparr>msg_to = Single (toLowerCase (trim t)),
                  msg_from_email = ''logisticabmm@gmail.com'',
                  msg_from_name = ''Control de Transportes BMM'',
                  msg_subject = ''Credenciales de acceso - Control de Transportes BMM'',
                  msg_text = None, msg_html = h, msg_attachments = None\<rparr>,
            ConsoleLog ''[sendAccessCredentials] Credenciales enviadas. Status:''],
           \<lparr>headers = cors, status = 200,
            payload = Json True ''Correo de credenciales enviado correctamente.'' None\<rparr>))"
proof (intro conjI impI)
  show "\<exists>h. accessCredentialsHtmlBody uf pf rf = Inr h"
    by (rule accessCredentialsHtmlBody_total)
next
  assume h: "httpMethod req = ''POST'' \<and> configured e
      \<and> getProp (orEmptyObject (body req)) ''to'' = JStr t \<and> toLowerCase (trim t) \<noteq> []
      \<and> getProp (orEmptyObject (body req)) ''usuario'' = JStr u \<and> trim u \<noteq> []
      \<and> getProp (orEmptyObject (body req)) ''contrasena'' = JStr c \<and> trim c \<noteq> []
      \<and> (getProp (orEmptyObject (body req)) ''rol'' = JUndefined
          \<or> getProp (orEmptyObject (body req)) ''rol'' = JNull
          \<or> (\<exists>r. getProp (orEmptyObject (body req)) ''rol'' = JStr r \<and> trim r = []))
      \<and> accessCredentialsHtmlBody (trim u) (trim c) ''Usuario'' = Inr h
      \<and> sgSend e \<lparr>msg_to = Single (toLowerCase (trim t)),
                   msg_from_email = ''logisticabmm@gmail.com'',
                   msg_from_name = ''Control de Transportes BMM'',
                   msg_subject = ''Credenciales de acceso - Control de Transportes BMM'',
                   msg_text = None, msg_html = h, msg_attachments = None\<rparr> = Inr code"
  then show rol: "rolFinalOf (getProp (orEmptyObject (body req)) ''rol'') = Inr ''Usuario''"
    by (intro rolFinalOf_blank) blast
  have "sublist (''<li><strong>Rol:</strong> '' @ ''Usuario'' @ ''</li>'') h"
    using h by (intro credentials_role [of "trim u" "trim c"]) simp
  then show "sublist ''<li><strong>Rol:</strong> Usuario</li>'' h" by simp
  have u: "trimmed (JStr u) = Inr (trim u)" and c: "trimmed (JStr c) = Inr (trim c)"
    using h by (auto simp: trimmed_def trim_def)
  show "sendAccessCredentials e req =
          ([ConsoleLog ''[sendAccessCredentials] Body recibido:'',
            Send \<lparr>msg_to = Single (toLowerCase (trim t)),
                  msg_from_email = ''logisticabmm@gmail.com'',
                  msg_from_name = ''Control de Transportes BMM'',
                  msg_subject = ''Credenciales de acceso - Control de Transportes BMM'',
                  msg_text = None, msg_html = h, msg_attachments = None\<rparr>,
            ConsoleLog ''[sendAccessCredentials] Credenciales enviadas. Status:''],
           \<lparr>headers = cors, status = 200,
            payload = Json True ''Correo de credenciales enviado correctamente.'' None\<rparr>)"
    using h rol u c
    by (simp add: sendAccessCredentials_def sendAccessCredentials_try_def
        initSendGridOrFail_configured io_defs Let_def deliver_cases fromEmail_def fromName_def
        sendOk_def normalizeEmail_JStr)
qed

theorem accessCredentials_role_fallback_witness:
  "rolFinalOf (JStr '''') = Inr ''Usuario''
   \<and> map msg_to (sends (fst (sendAccessCredentials sampleEnv
        \<lparr>httpMethod = ''POST'',
         body = JObj [(''to'', JStr ''  User@X.com ''), (''usuario'', JStr ''jdoe''),
                      (''contrasena'', JStr ''p@ss1''), (''rol'', JStr '''')]\<rparr>)))
       = [Single ''user@x.com'']
   \<and> list_all (\<lambda>m. sublist ''<li><strong>Rol:</strong> Usuario</li>'' (msg_html m))
        (sends (fst (sendAccessCredentials sampleEnv
        \<lparr>httpMethod = ''POST'',
         body = JObj [(''to'', JStr ''  User@X.com ''), (''usuario'', JStr ''jdoe''),
                      (''contrasena'', JStr ''p@ss1''), (''rol'', JStr '''')]\<rparr>)))
   \<and> snd (sendAccessCredentials sampleEnv
        \<lparr>httpMethod = ''POST'',
         body = JObj [(''to'', JStr ''  User@X.com ''), (''usuario'', JStr ''jdoe''),
                      (''contrasena'', JStr ''p@ss1''), (''rol'', JStr '''')]\<rparr>)
       = \<lparr>headers = cors, status = 200,
          payload = Json True ''Correo de credenciales enviado correctamente.'' None\<rparr>"
proof -
  let ?req = "\<lparr>httpMethod = ''POST'',
         body = JObj [(''to'', JStr ''  User@X.com ''), (''usuario'', JStr ''jdoe''),
                      (''contrasena'', JStr ''p@ss1''), (''rol'', JStr '''')]\<rparr>"
  note fb = accessCredentials_role_fallback
  have t: "toLowerCase (trim ''  User@X.com '') = ''user@x.com''"
    and u: "trim ''jdoe'' = ''jdoe''" and c: "trim ''p@ss1'' = ''p@ss1''" and r: "trim '''' = ''''"
    by (simp_all add: str_eval)
  obtain h where h: "accessCredentialsHtmlBody ''jdoe'' ''p@ss1'' ''Usuario'' = Inr h"
    using fb [of "''jdoe''" "''p@ss1''" "''Usuario''"] by blast
  have "rolFinalOf (getProp (orEmptyObject (body ?req)) ''rol'') = Inr ''Usuario''
      \<and> sublist ''<li><strong>Rol:</strong> Usuario</li>'' h
      \<and> sendAccessCredentials sampleEnv ?req =
          ([ConsoleLog ''[sendAccessCredentials] Body recibido:'',
            Send \<lparr>msg_to = Single ''user@x.com'',
                  msg_from_email = ''logisticabmm@gmail.com'',
                  msg_from_name = ''Control de Transportes BMM'',
                  msg_subject = ''Credenciales de acceso - Control de Transportes BMM'',
                  msg_text = None, msg_html = h, msg_attachments = None\<rparr>,
            ConsoleLog ''[sendAccessCredentials] Credenciales enviadas. Status:''],
           \<lparr>headers = cors, status = 200,
            payload = Json True ''Correo de credenciales enviado correctamente.'' None\<rparr>)"
    using fb [of _ _ _ ?req sampleEnv "''  User@X.com ''" "''jdoe''" "''p@ss1''" h 202]
      configured_sampleEnv t u c r h
    by (simp add: orEmptyObject_def sampleEnv_simps)
  then show ?thesis
    by (simp add: orEmptyObject_def)
qed

text \<open>
  C8 (amended). How the two flags of an appointment are rendered. In the body of a
  pre-registration, \<open>esDomingo\<close> is rendered as \<open>Si, requiere aprobacion especial (with its accents)\<close> when
  it is truthy and as \<open>No\<close> otherwise, never as a raw boolean. \<open>recolectaCaja\<close> is
  interpolated as text with a fallback: in the pre-registration body a falsy value is
  rendered as \<open>No\<close>, in the HTML and text bodies of a confirmation as \<open>-\<close>; so \<open>false\<close> and
  an absent flag render as the fallback, a non-empty string renders as itself, and the
  boolean \<open>true\<close> renders as the raw string \<open>true\<close>.
\<close>

theorem flags_rendering:
  "(appointmentHtmlBody b p = Inr h \<longrightarrow>
      sublist (''<li><strong>Es domingo:</strong> ''
            @ (if truthy (getProp (getProp b ''cita'') ''esDomingo'')
               then ''S'' @ [CHR 0xED] @ '', requiere aprobaci'' @ [CHR 0xF3] @ ''n especial''
               else ''No'')
            @ ''</li>'') h
      \<and> (\<exists>r. orElse (getProp (getProp b ''cita'') ''recolectaCaja'') ''No'' = Inr r
            \<and> sublist (''Recolecta caja?:</strong> '' @ r @ ''</li>'') h))
   \<and> (citaHtmlBody folio datosCita = Inr h' \<longrightarrow>
        (\<exists>r. orElse (getProp datosCita ''recolectaCaja'') ''-'' = Inr r
            \<and> sublist (''Recolecta caja?:</strong> '' @ r @ ''</li>'') h'))
   \<and> (citaTextBody folio datosCita = Inr t \<longrightarrow>
        (\<exists>r. orElse (getProp datosCita ''recolectaCaja'') ''-'' = Inr r
            \<and> sublist (''Recolecta caja?: '' @ r @ ''\<newline>- Comentarios / notas:'') t))
   \<and> orElse (JBool False) d = Inr d
   \<and> orElse JUndefined d = Inr d
   \<and> orElse (JBool True) d = Inr ''true''
   \<and> (s \<noteq> [] \<longrightarrow> orElse (JStr s) d = Inr s)"
  using appointment_esDomingo [of b p h] appointment_recolectaCaja [of b p h]
    confirmacion_html_recolectaCaja [of folio datosCita h']
    confirmacion_text_recolectaCaja [of folio datosCita t]
    orElse_cases [of d] orElse_cases(4) [of s d]
  by (intro conjI impI) assumption+

theorem flags_rendering_witness:
  "(case appointmentHtmlBody
           (JObj [(''cita'', JObj [(''recolectaCaja'', JBool False), (''esDomingo'', JBool True)])])
           ''p@x.com'' of
      Inl err \<Rightarrow> False
    | Inr h \<Rightarrow>
        sublist (''<li><strong>Es domingo:</strong> S'' @ [CHR 0xED] @ '', requiere aprobaci''
                   @ [CHR 0xF3] @ ''n especial</li>'') h
        \<and> sublist ''Recolecta caja?:</strong> No</li>'' h)
   \<and> (case citaHtmlBody (JStr ''F-100'') (JObj [(''recolectaCaja'', JStr ''No'')]) of
      Inl err \<Rightarrow> False
    | Inr h \<Rightarrow> sublist ''Recolecta caja?:</strong> No</li>'' h)
   \<and> (case citaTextBody (JStr ''F-100'') (JObj [(''recolectaCaja'', JBool False)]) of
      Inl err \<Rightarrow> False
    | Inr t \<Rightarrow> sublist (''Recolecta caja?: -'' @ [CHR 0x0A] @ ''- Comentarios / notas:'') t)
   \<and> orElse (JStr ''No'') ''-'' = Inr ''No''"
proof -
  let ?b = "JObj [(''cita'', JObj [(''recolectaCaja'', JBool False), (''esDomingo'', JBool True)])]"
  let ?d1 = "JObj [(''recolectaCaja'', JStr ''No'')]"
  let ?d2 = "JObj [(''recolectaCaja'', JBool False)]"
  note fl = flags_rendering
  have "\<exists>h. appointmentHtmlBody ?b ''p@x.com'' = Inr h"
    unfolding appointmentHtmlBody_def Let_def
    by (rule template_total) (simp add: orElse_def notasEscaped_def)
  then obtain h where h: "appointmentHtmlBody ?b ''p@x.com'' = Inr h" ..
  have 1: "sublist (''<li><strong>Es domingo:</strong> S'' @ [CHR 0xED] @ '', requiere aprobaci''
                   @ [CHR 0xF3] @ ''n especial</li>'') h
        \<and> sublist ''Recolecta caja?:</strong> No</li>'' h"
    using fl [of ?b "''p@x.com''" h] h by (simp add: orElse_def)
  have "\<exists>h. citaHtmlBody (JStr ''F-100'') ?d1 = Inr h"
    unfolding citaHtmlBody_def Let_def
    by (rule template_total) (simp add: orElse_def horaExtraSuffix_def notasWithBreaks_def)
  then obtain h' where h': "citaHtmlBody (JStr ''F-100'') ?d1 = Inr h'" ..
  have 2: "sublist ''Recolecta caja?:</strong> No</li>'' h'"
    using fl [of _ _ _ "JStr ''F-100''" ?d1 h'] h' by (simp add: orElse_def)
  have "\<exists>t. citaTextBody (JStr ''F-100'') ?d2 = Inr t"
    unfolding citaTextBody_def Let_def
    by (rule map_sum_total, rule template_total) (simp add: orElse_def horaExtraSuffix_def)
  then obtain t where t: "citaTextBody (JStr ''F-100'') ?d2 = Inr t" ..
  have 3: "sublist (''Recolecta caja?: -'' @ [CHR 0x0A] @ ''- Comentarios / notas:'') t"
    using fl [of _ _ _ "JStr ''F-100''" ?d2 _ t] t by (simp add: orElse_def)
  have 4: "orElse (JStr ''No'') ''-'' = Inr ''No''"
    using fl [of _ _ _ _ _ _ _ "''-''" "''No''"] by simp
  show ?thesis using h 1 h' 2 t 3 4 by simp
qed

text \<open>
  The claim as first stated fails: with \<open>recolectaCaja = true\<close> the message sent for a
  pre-registration carries the raw \<open>true\<close> in its HTML body, and so does the text body of
  the message sent for a confirmation.
\<close>

theorem flags_rendering_counterexample:
  "map (\<lambda>m. sublist ''Recolecta caja?:</strong> true</li>'' (msg_html m))
     (sends (fst (sendAppointmentNotification sampleEnv
        \<lparr>httpMethod = ''POST'',
         body = JObj [(''providerEmail'', JStr ''p@x.com''),
                      (''cita'', JObj [(''fecha'', JStr ''2025-01-01''), (''hora'', JStr ''10:00''),
                                       (''recolectaCaja'', JBool True)])]\<rparr>))) = [True]
   \<and> map (\<lambda>m. case msg_text m of
                None \<Rightarrow> False
              | Some t \<Rightarrow> sublist ''Recolecta caja?: true'' t)
     (sends (fst (sendCitaConfirmacion sampleEnv
        \<lparr>httpMethod = ''POST'',
         body = JObj [(''to'', JStr ''a@x.com''), (''folio'', JStr ''F-100''),
                      (''datosCita'', JObj [(''recolectaCaja'', JBool True)])]\<rparr>))) = [True]"
proof -
  let ?folio = "JStr ''F-100''"
  let ?datos = "JObj [(''recolectaCaja'', JBool True)]"
  let ?r1 = "\<lparr>httpMethod = ''POST'',
         body = JObj [(''to'', JStr ''a@x.com''), (''folio'', ?folio), (''datosCita'', ?datos)]\<rparr>"
  let ?b = "JObj [(''providerEmail'', JStr ''p@x.com''),
                      (''cita'', JObj [(''fecha'', JStr ''2025-01-01''), (''hora'', JStr ''10:00''),
                                       (''recolectaCaja'', JBool True)])]"
  let ?r2 = "\<lparr>httpMethod = ''POST'', body = ?b\<rparr>"
  have v1: "validConfirmacion ?r1"
    by (simp add: validConfirmacion_def orEmptyObject_def)
  have n1: "normalizeEmail (getProp (orEmptyObject (body ?r1)) ''to'') = Inr ''a@x.com''"
    by (simp add: orEmptyObject_def normalizeEmail_JStr str_eval)
  have "\<exists>s. citaSubject ?folio = Inr s"
    unfolding citaSubject_def by (rule template_total) simp
  then obtain s where s: "citaSubject (getProp (orEmptyObject (body ?r1)) ''folio'') = Inr s"
    by (auto simp: orEmptyObject_def)
  have "\<exists>t. citaTextBody ?folio ?datos = Inr t"
    unfolding citaTextBody_def Let_def
    by (rule map_sum_total, rule template_total) (simp add: orElse_def horaExtraSuffix_def)
  then obtain t where t0: "citaTextBody ?folio ?datos = Inr t" ..
  then have t: "citaTextBody (getProp (orEmptyObject (body ?r1)) ''folio'')
      (getProp (orEmptyObject (body ?r1)) ''datosCita'') = Inr t"
    by (simp add: orEmptyObject_def)
  have "\<exists>h. citaHtmlBody ?folio ?datos = Inr h"
    unfolding citaHtmlBody_def Let_def
    by (rule template_total) (simp add: orElse_def horaExtraSuffix_def notasWithBreaks_def)
  then obtain h where h: "citaHtmlBody (getProp (orEmptyObject (body ?r1)) ''folio'')
      (getProp (orEmptyObject (body ?r1)) ''datosCita'') = Inr h"
    by (auto simp: orEmptyObject_def)
  have "sublist (''Recolecta caja?: true'' @ ''\<newline>- Comentarios / notas:'') t"
    using confirmacion_text_recolectaCaja [OF t0] by (simp add: orElse_def)
  then have 1: "sublist ''Recolecta caja?: true'' t"
    by (rule sublist_drop_suffix)
  have a: "map (\<lambda>m. (msg_text m, msg_html m)) (sends (fst (sendCitaConfirmacion sampleEnv ?r1)))
      = [(Some t, h)]"
    using v1 configured_sampleEnv n1 s t h by (rule sendCitaConfirmacion_sends)
  have v2: "validAppointment ?r2"
    by (simp add: validAppointment_def orEmptyObject_def)
  have n2: "normalizeEmail (getProp (orEmptyObject (body ?r2)) ''providerEmail'') = Inr ''p@x.com''"
    by (simp add: orEmptyObject_def normalizeEmail_JStr str_eval)
  have r2: "appointmentRecipients sampleEnv ''p@x.com'' =
      ([FirestoreGet adminsQuery], Inr [''p@x.com'', ''a@x.com''])"
    by (simp add: appointmentRecipients_cases sampleEnv_simps adminEmailsOf_def correo_def
        filterBoolean_def newSet_def setAdd_def normalizeEmail_def str_eval)
  have "\<exists>h. appointmentHtmlBody ?b ''p@x.com'' = Inr h"
    unfolding appointmentHtmlBody_def Let_def
    by (rule template_total) (simp add: orElse_def notasEscaped_def)
  then obtain h' where h0': "appointmentHtmlBody ?b ''p@x.com'' = Inr h'" ..
  then have h': "appointmentHtmlBody (orEmptyObject (body ?r2)) ''p@x.com'' = Inr h'"
    by (simp add: orEmptyObject_def)
  have 2: "sublist ''Recolecta caja?:</strong> true</li>'' h'"
    using appointment_recolectaCaja [OF h0'] by (simp add: orElse_def)
  have b: "map msg_html (sends (fst (sendAppointmentNotification sampleEnv ?r2))) = [h']"
    using v2 configured_sampleEnv n2 r2 _ h' by (rule sendAppointmentNotification_sends) simp
  have "map (\<lambda>m. sublist ''Recolecta caja?:</strong> true</li>'' (msg_html m))
     (sends (fst (sendAppointmentNotification sampleEnv ?r2))) = [True]"
    using b 2 by (auto simp: map_eq_Cons_conv)
  moreover have "map (\<lambda>m. case msg_text m of
                None \<Rightarrow> False
              | Some t \<Rightarrow> sublist ''Recolecta caja?: true'' t)
     (sends (fst (sendCitaConfirmacion sampleEnv ?r1))) = [True]"
    using a 1 by (auto simp: map_eq_Cons_conv)
  ultimately show ?thesis by simp
qed





end
